theory Spec2Isabelle
  imports Main "HOL-Library.Word"
begin

unbundle bit_operations_syntax

section \<open>Exceptions\<close>

text \<open>
  The exceptions that the operations of \<^verbatim>\<open>janus.py\<close> raise, by class. An error
  carries its class and its message (what \<^verbatim>\<open>str(e)\<close> gives). Asynchronous
  interrupts (\<^verbatim>\<open>KeyboardInterrupt\<close>, \<^verbatim>\<open>SystemExit\<close>) are no operation's result and
  are not modelled.
\<close>

datatype exc_class =
    Exception
  | ValueError | UnicodeDecodeError | JSONDecodeError
  | OSError | FileNotFoundError | PermissionError | IsADirectoryError | TimeoutError
  | CalledProcessError | RuntimeError

datatype error = Exc exc_class string

fun exc_class_of :: "error \<Rightarrow> exc_class" where
  "exc_class_of (Exc k m) = k"

fun str_error :: "error \<Rightarrow> string" where
  "str_error (Exc k m) = m"

text \<open>The classes a class derives from, itself first (Python's hierarchy).\<close>

definition mro :: "exc_class \<Rightarrow> exc_class list" where
  "mro k =
     (case k of
        Exception \<Rightarrow> [Exception]
      | ValueError \<Rightarrow> [ValueError, Exception]
      | UnicodeDecodeError \<Rightarrow> [UnicodeDecodeError, ValueError, Exception]
      | JSONDecodeError \<Rightarrow> [JSONDecodeError, ValueError, Exception]
      | OSError \<Rightarrow> [OSError, Exception]
      | FileNotFoundError \<Rightarrow> [FileNotFoundError, OSError, Exception]
      | PermissionError \<Rightarrow> [PermissionError, OSError, Exception]
      | IsADirectoryError \<Rightarrow> [IsADirectoryError, OSError, Exception]
      | TimeoutError \<Rightarrow> [TimeoutError, OSError, Exception]
      | CalledProcessError \<Rightarrow> [CalledProcessError, Exception]
      | RuntimeError \<Rightarrow> [RuntimeError, Exception])"

text \<open>\<open>subclass_of k k'\<close>: class \<open>k\<close> is \<open>k'\<close> or derives from it.\<close>

definition subclass_of :: "exc_class \<Rightarrow> exc_class \<Rightarrow> bool" where
  "subclass_of k k' = List.member (mro k) k'"

text \<open>\<^verbatim>\<open>except (K1, K2, ...)\<close> catches \<open>e\<close>.\<close>

definition caught_by :: "exc_class list \<Rightarrow> error \<Rightarrow> bool" where
  "caught_by ks e = list_ex (subclass_of (exc_class_of e)) ks"

section \<open>Python's string and integer primitives\<close>

text \<open>
  Strings are byte strings of ASCII text. \<open>py_isspace\<close> is \<^verbatim>\<open>str.isspace\<close> on one ASCII
  character: TAB, LF, VT, FF, CR, the separators FS, GS, RS, US, and the space.
\<close>

definition py_isspace :: "char \<Rightarrow> bool" where
  "py_isspace c = (let n = (of_char c :: nat) in (9 \<le> n \<and> n \<le> 13) \<or> (28 \<le> n \<and> n \<le> 32))"

definition py_strip :: "string \<Rightarrow> string" where
  "py_strip s = rev (dropWhile py_isspace (rev (dropWhile py_isspace s)))"

definition digit_val :: "char \<Rightarrow> nat option" where
  "digit_val c = (let n = (of_char c :: nat) in if 48 \<le> n \<and> n \<le> 57 then Some (n - 48) else None)"

text \<open>
  The digits of a decimal literal after its sign: one digit, then digits each optionally
  preceded by a single underscore. \<open>acc\<close> is the value read so far; \<open>after_digit\<close> says
  whether an underscore may come next.
\<close>

fun py_digits :: "bool \<Rightarrow> int \<Rightarrow> string \<Rightarrow> int option" where
  "py_digits after_digit acc [] = (if after_digit then Some acc else None)"
| "py_digits after_digit acc (c # cs) =
     (case digit_val c of
        Some d \<Rightarrow> py_digits True (10 * acc + int d) cs
      | None \<Rightarrow>
          (if c = CHR ''_'' \<and> after_digit then
             (case cs of
                [] \<Rightarrow> None
              | c' # cs' \<Rightarrow>
                  (case digit_val c' of
                     Some d \<Rightarrow> py_digits True (10 * acc + int d) cs'
                   | None \<Rightarrow> None))
           else None))"

text \<open>
  \<^verbatim>\<open>int(s)\<close> on a string: surrounding whitespace is dropped, then an optional sign and
  the digits. Anything else raises \<^verbatim>\<open>ValueError\<close>. Digits and whitespace outside ASCII,
  and the limit that recent interpreters put on the number of digits, are left out.
\<close>

definition py_int :: "string \<Rightarrow> error + int" where
  "py_int s =
     (let t = py_strip s;
          bad = Inl (Exc ValueError (''invalid literal for int() with base 10: '' @ s))
      in case t of
           [] \<Rightarrow> bad
         | c # cs \<Rightarrow>
             (if c = CHR ''-'' then
                (case py_digits False 0 cs of Some n \<Rightarrow> Inr (- n) | None \<Rightarrow> bad)
              else if c = CHR ''+'' then
                (case py_digits False 0 cs of Some n \<Rightarrow> Inr n | None \<Rightarrow> bad)
              else
                (case py_digits False 0 t of Some n \<Rightarrow> Inr n | None \<Rightarrow> bad)))"

text \<open>
  \<^verbatim>\<open>str(n)\<close> for an integer: decimal digits, with a minus sign when negative.
  \<open>digit_char\<close> is only applied to a number below 10.
\<close>

definition digit_char :: "nat \<Rightarrow> char" where
  "digit_char d = ''0123456789'' ! d"

function str_nat :: "nat \<Rightarrow> string" where
  "str_nat n = (if n < 10 then [digit_char n] else str_nat (n div 10) @ [digit_char (n mod 10)])"
  by pat_completeness auto
termination
  by (relation "measure id") auto

declare str_nat.simps [simp del]

definition str_int :: "int \<Rightarrow> string" where
  "str_int i = (if i < 0 then CHR ''-'' # str_nat (nat (- i)) else str_nat (nat i))"

text \<open>\<^verbatim>\<open>s.startswith(p)\<close>.\<close>

definition startswith :: "string \<Rightarrow> string \<Rightarrow> bool" where
  "startswith s p = (take (length p) s = p)"

text \<open>
  \<^verbatim>\<open>arg.split('=', 1)[1]\<close>: what follows the first \<^verbatim>\<open>=\<close>. The source evaluates it
  only on a string that starts with \<^verbatim>\<open>--basedir=\<close>, so the \<^verbatim>\<open>=\<close> is there.
\<close>

definition split_eq_snd :: "string \<Rightarrow> string" where
  "split_eq_snd s = drop 1 (dropWhile (\<lambda>c. c \<noteq> CHR ''='') s)"

text \<open>\<^verbatim>\<open>s.rstrip()\<close> and \<^verbatim>\<open>s.split()\<close> (split at runs of whitespace).\<close>

definition py_rstrip :: "string \<Rightarrow> string" where
  "py_rstrip s = rev (dropWhile py_isspace (rev s))"

fun py_split_aux :: "string \<Rightarrow> string \<Rightarrow> string list" where
  "py_split_aux cur [] = (if cur = [] then [] else [rev cur])"
| "py_split_aux cur (c # cs) =
     (if py_isspace c then (if cur = [] then py_split_aux [] cs else rev cur # py_split_aux [] cs)
      else py_split_aux (c # cur) cs)"

definition py_split :: "string \<Rightarrow> string list" where
  "py_split s = py_split_aux [] s"

section \<open>SHA-256 (\<^verbatim>\<open>hashlib.sha256\<close>)\<close>

type_synonym w32 = "32 word"

text \<open>The 64 round constants of the standard, in decimal.\<close>

definition K256 :: "w32 list" where
  "K256 =
    [1116352408, 1899447441, 3049323471, 3921009573, 961987163, 1508970993,
     2453635748, 2870763221, 3624381080, 310598401, 607225278, 1426881987,
     1925078388, 2162078206, 2614888103, 3248222580, 3835390401, 4022224774,
     264347078, 604807628, 770255983, 1249150122, 1555081692, 1996064986,
     2554220882, 2821834349, 2952996808, 3210313671, 3336571891, 3584528711,
     113926993, 338241895, 666307205, 773529912, 1294757372, 1396182291,
     1695183700, 1986661051, 2177026350, 2456956037, 2730485921, 2820302411,
     3259730800, 3345764771, 3516065817, 3600352804, 4094571909, 275423344,
     430227734, 506948616, 659060556, 883997877, 958139571, 1322822218,
     1537002063, 1747873779, 1955562222, 2024104815, 2227730452, 2361852424,
     2428436474, 2756734187, 3204031479, 3329325298]"

definition rotr :: "nat \<Rightarrow> w32 \<Rightarrow> w32" where
  "rotr n x = (drop_bit n x) OR (push_bit (32 - n) x)"

definition ssig0 :: "w32 \<Rightarrow> w32" where
  "ssig0 x = rotr 7 x XOR rotr 18 x XOR drop_bit 3 x"

definition ssig1 :: "w32 \<Rightarrow> w32" where
  "ssig1 x = rotr 17 x XOR rotr 19 x XOR drop_bit 10 x"

definition bsig0 :: "w32 \<Rightarrow> w32" where
  "bsig0 x = rotr 2 x XOR rotr 13 x XOR rotr 22 x"

definition bsig1 :: "w32 \<Rightarrow> w32" where
  "bsig1 x = rotr 6 x XOR rotr 11 x XOR rotr 25 x"

definition ch :: "w32 \<Rightarrow> w32 \<Rightarrow> w32 \<Rightarrow> w32" where
  "ch x y z = (x AND y) XOR (NOT x AND z)"

definition maj :: "w32 \<Rightarrow> w32 \<Rightarrow> w32 \<Rightarrow> w32" where
  "maj x y z = (x AND y) XOR (x AND z) XOR (y AND z)"

text \<open>Big-endian bytes of a number, \<open>k\<close> of them.\<close>

primrec be_bytes :: "nat \<Rightarrow> nat \<Rightarrow> nat list" where
  "be_bytes 0 n = []"
| "be_bytes (Suc k) n = (n div 256 ^ k) mod 256 # be_bytes k n"

text \<open>The message, the byte 0x80, zeros up to 56 modulo 64, and the bit length on 8 bytes.\<close>

definition sha256_pad :: "nat list \<Rightarrow> nat list" where
  "sha256_pad m =
     m @ [128] @ replicate ((119 - length m mod 64) mod 64) 0 @ be_bytes 8 (8 * length m)"

fun be_words :: "nat list \<Rightarrow> w32 list" where
  "be_words (a # b # c # d # rest) =
     (((of_nat a * 256 + of_nat b) * 256 + of_nat c) * 256 + of_nat d) # be_words rest"
| "be_words rest = []"

text \<open>The message schedule: \<open>n\<close> further words appended to the 16 of the block.\<close>

primrec schedule :: "nat \<Rightarrow> w32 list \<Rightarrow> w32 list" where
  "schedule 0 ws = ws"
| "schedule (Suc n) ws =
     (let t = length ws in
      schedule n (ws @ [ssig1 (ws ! (t - 2)) + ws ! (t - 7) + ssig0 (ws ! (t - 15)) + ws ! (t - 16)]))"

type_synonym sha_state = "w32 \<times> w32 \<times> w32 \<times> w32 \<times> w32 \<times> w32 \<times> w32 \<times> w32"

definition sha_round :: "sha_state \<Rightarrow> w32 \<times> w32 \<Rightarrow> sha_state" where
  "sha_round s kw =
     (case s of (a, b, c, d, e, f, g, h) \<Rightarrow>
        (let t1 = h + bsig1 e + ch e f g + fst kw + snd kw;
             t2 = bsig0 a + maj a b c
         in (t1 + t2, a, b, c, d + t1, e, f, g)))"

primrec sha_rounds :: "sha_state \<Rightarrow> (w32 \<times> w32) list \<Rightarrow> sha_state" where
  "sha_rounds s [] = s"
| "sha_rounds s (kw # kws) = sha_rounds (sha_round s kw) kws"

definition sha_add :: "sha_state \<Rightarrow> sha_state \<Rightarrow> sha_state" where
  "sha_add s s' =
     (case s of (a, b, c, d, e, f, g, h) \<Rightarrow>
        (case s' of (a', b', c', d', e', f', g', h') \<Rightarrow>
           (a + a', b + b', c + c', d + d', e + e', f + f', g + g', h + h')))"

definition sha_block :: "sha_state \<Rightarrow> w32 list \<Rightarrow> sha_state" where
  "sha_block s blk = sha_add s (sha_rounds s (zip K256 (schedule 48 blk)))"

function sha_blocks :: "sha_state \<Rightarrow> w32 list \<Rightarrow> sha_state" where
  "sha_blocks s ws = (if length ws < 16 then s else sha_blocks (sha_block s (take 16 ws)) (drop 16 ws))"
  by pat_completeness auto
termination
  by (relation "measure (\<lambda>(s, ws). length ws)") auto

declare sha_blocks.simps [simp del]

definition sha_init :: sha_state where
  "sha_init = (0x6a09e667, 0xbb67ae85, 0x3c6ef372, 0xa54ff53a,
               0x510e527f, 0x9b05688c, 0x1f83d9ab, 0x5be0cd19)"

definition sha_words :: "sha_state \<Rightarrow> w32 list" where
  "sha_words s = (case s of (a, b, c, d, e, f, g, h) \<Rightarrow> [a, b, c, d, e, f, g, h])"

text \<open>\<^verbatim>\<open>basedir.encode()\<close> gives the bytes of the string; the digest is 8 words.\<close>

definition sha256 :: "string \<Rightarrow> w32 list" where
  "sha256 s = sha_words (sha_blocks sha_init (be_words (sha256_pad (map of_char s))))"

definition hex_char :: "nat \<Rightarrow> char" where
  "hex_char d = ''0123456789abcdef'' ! d"

text \<open>The 8 hexadecimal digits of a word; a digit is a number below 16.\<close>

definition hex_word :: "w32 \<Rightarrow> string" where
  "hex_word w = map (\<lambda>k. hex_char (unat (drop_bit (4 * k) w AND 15))) [7, 6, 5, 4, 3, 2, 1, 0]"

text \<open>\<^verbatim>\<open>hashlib.sha256(b).hexdigest()\<close>: 64 lower-case hexadecimal digits.\<close>

definition hexdigest :: "w32 list \<Rightarrow> string" where
  "hexdigest ws = concat (map hex_word ws)"

definition hex_val :: "char \<Rightarrow> nat option" where
  "hex_val c =
     (let n = (of_char c :: nat) in
      if 48 \<le> n \<and> n \<le> 57 then Some (n - 48)
      else if 97 \<le> n \<and> n \<le> 102 then Some (n - 87)
      else if 65 \<le> n \<and> n \<le> 70 then Some (n - 55)
      else None)"

fun hex_digits :: "int \<Rightarrow> string \<Rightarrow> int option" where
  "hex_digits acc [] = Some acc"
| "hex_digits acc (c # cs) =
     (case hex_val c of Some d \<Rightarrow> hex_digits (16 * acc + int d) cs | None \<Rightarrow> None)"

text \<open>
  \<^verbatim>\<open>int(s, 16)\<close> on a non-empty string of hexadecimal digits, which is what a prefix of a
  hexdigest is. Other input raises \<^verbatim>\<open>ValueError\<close> here (Python would also take a sign,
  a \<^verbatim>\<open>0x\<close> prefix and underscores, which a hexdigest never has).
\<close>

definition py_int16 :: "string \<Rightarrow> error + int" where
  "py_int16 s =
     (case (if s = [] then None else hex_digits 0 s) of
        Some n \<Rightarrow> Inr n
      | None \<Rightarrow> Inl (Exc ValueError (''invalid literal for int() with base 16: '' @ s)))"

section \<open>JSON documents (\<^verbatim>\<open>json.loads\<close>)\<close>

text \<open>
  The decoder of Python's \<^verbatim>\<open>json\<close> module on a string, with its default settings.
  Numbers and the contents of strings are kept as they are written. The recursion is bounded
  by a counter; running out of it is reported like any other decoding failure.
\<close>

datatype json = JNull | JBool bool | JNum string | JStr string | JArr "json list"
  | JObj "(string \<times> json) list"

definition json_ws :: "char \<Rightarrow> bool" where
  "json_ws c = (c = CHR '' '' \<or> c = CHR 0x09 \<or> c = CHR 0x0A \<or> c = CHR 0x0D)"

definition skip_ws :: "string \<Rightarrow> string" where
  "skip_ws s = dropWhile json_ws s"

definition is_digit :: "char \<Rightarrow> bool" where
  "is_digit c = (digit_val c \<noteq> None)"

definition is_hex :: "char \<Rightarrow> bool" where
  "is_hex c = (hex_val c \<noteq> None)"

text \<open>
  The contents of a string literal, from after its opening quote to its closing quote:
  no control character, a backslash only before one of \<^verbatim>\<open>"\/bfnrt\<close> or before
  \<^verbatim>\<open>u\<close> and four hexadecimal digits. \<open>acc\<close> holds what was read, reversed.
\<close>

fun scan_string :: "string \<Rightarrow> string \<Rightarrow> (string \<times> string) option" where
  "scan_string acc [] = None"
| "scan_string acc (c # cs) =
     (if c = CHR 0x22 then Some (rev acc, cs)
      else if c = CHR 0x5C then
        (case cs of
           [] \<Rightarrow> None
         | e # cs' \<Rightarrow>
             (if e = CHR ''u'' then
                (case cs' of
                   h1 # h2 # h3 # h4 # cs'' \<Rightarrow>
                     (if is_hex h1 \<and> is_hex h2 \<and> is_hex h3 \<and> is_hex h4
                      then scan_string (h4 # h3 # h2 # h1 # e # c # acc) cs''
                      else None)
                 | _ \<Rightarrow> None)
              else if List.member [CHR 0x22, CHR 0x5C, CHR ''/'', CHR ''b'', CHR ''f'',
                                   CHR ''n'', CHR ''r'', CHR ''t''] e
              then scan_string (e # c # acc) cs'
              else None))
      else if (of_char c :: nat) < 32 then None
      else scan_string (c # acc) cs)"

text \<open>
  A number at the start of the input, as the decoder's pattern
  \<^verbatim>\<open>(-?(?:0|[1-9][0-9]*))(\.[0-9]+)?([eE][-+]?[0-9]+)?\<close> matches it: the literal and the
  rest of the input.
\<close>

definition scan_int_part :: "string \<Rightarrow> (string \<times> string) option" where
  "scan_int_part s =
     (case s of
        [] \<Rightarrow> None
      | c # cs \<Rightarrow>
          (if c = CHR ''0'' then Some ([c], cs)
           else if is_digit c then Some (c # takeWhile is_digit cs, dropWhile is_digit cs)
           else None))"

definition scan_frac :: "string \<Rightarrow> string \<times> string" where
  "scan_frac s =
     (case s of
        c # d # cs \<Rightarrow>
          (if c = CHR ''.'' \<and> is_digit d
           then (c # d # takeWhile is_digit cs, dropWhile is_digit cs)
           else ([], s))
      | _ \<Rightarrow> ([], s))"

definition scan_exp :: "string \<Rightarrow> string \<times> string" where
  "scan_exp s =
     (case s of
        [] \<Rightarrow> ([], s)
      | c # cs \<Rightarrow>
          (if c = CHR ''e'' \<or> c = CHR ''E'' then
             (case cs of
                [] \<Rightarrow> ([], s)
              | d # ds \<Rightarrow>
                  (if is_digit d then (c # d # takeWhile is_digit ds, dropWhile is_digit ds)
                   else if d = CHR ''-'' \<or> d = CHR ''+'' then
                     (case ds of
                        [] \<Rightarrow> ([], s)
                      | d' # ds' \<Rightarrow>
                          (if is_digit d'
                           then (c # d # d' # takeWhile is_digit ds', dropWhile is_digit ds')
                           else ([], s)))
                   else ([], s)))
           else ([], s)))"

definition scan_number :: "string \<Rightarrow> (string \<times> string) option" where
  "scan_number s =
     (let (sign, s1) = (case s of c # cs \<Rightarrow> if c = CHR ''-'' then ([c], cs) else ([], s)
                        | [] \<Rightarrow> ([], s))
      in case scan_int_part s1 of
           None \<Rightarrow> None
         | Some (ip, s2) \<Rightarrow>
             (let (fp, s3) = scan_frac s2; (ep, s4) = scan_exp s3
              in Some (sign @ ip @ fp @ ep, s4)))"

text \<open>
  \<open>parse_value\<close> reads one value at the start of the input. \<open>parse_array\<close> reads the
  elements of a non-empty array from its first value on, \<open>parse_object\<close> the members of
  a non-empty object from its first key on. Each gives the value and the rest of the input.
\<close>

fun parse_value :: "nat \<Rightarrow> string \<Rightarrow> (json \<times> string) option"
  and parse_array :: "nat \<Rightarrow> json list \<Rightarrow> string \<Rightarrow> (json \<times> string) option"
  and parse_object :: "nat \<Rightarrow> (string \<times> json) list \<Rightarrow> string \<Rightarrow> (json \<times> string) option"
where
  "parse_value 0 s = None"
| "parse_value (Suc n) s =
     (case s of
        [] \<Rightarrow> None
      | c # cs \<Rightarrow>
          (if c = CHR 0x22 then
             (case scan_string [] cs of None \<Rightarrow> None | Some (t, r) \<Rightarrow> Some (JStr t, r))
           else if c = CHR ''{'' then
             (case skip_ws cs of
                [] \<Rightarrow> None
              | d # r \<Rightarrow> if d = CHR ''}'' then Some (JObj [], r) else parse_object n [] (d # r))
           else if c = CHR ''['' then
             (case skip_ws cs of
                [] \<Rightarrow> None
              | d # r \<Rightarrow> if d = CHR '']'' then Some (JArr [], r) else parse_array n [] (d # r))
           else if startswith s ''null'' then Some (JNull, drop 4 s)
           else if startswith s ''true'' then Some (JBool True, drop 4 s)
           else if startswith s ''false'' then Some (JBool False, drop 5 s)
           else
             (case scan_number s of
                Some (lit, r) \<Rightarrow> Some (JNum lit, r)
              | None \<Rightarrow>
                  (if startswith s ''NaN'' then Some (JNum ''NaN'', drop 3 s)
                   else if startswith s ''Infinity'' then Some (JNum ''Infinity'', drop 8 s)
                   else if startswith s ''-Infinity'' then Some (JNum ''-Infinity'', drop 9 s)
                   else None))))"
| "parse_array 0 acc s = None"
| "parse_array (Suc n) acc s =
     (case parse_value n s of
        None \<Rightarrow> None
      | Some (v, r) \<Rightarrow>
          (case skip_ws r of
             [] \<Rightarrow> None
           | d # r' \<Rightarrow>
               (if d = CHR '']'' then Some (JArr (rev (v # acc)), r')
                else if d = CHR '','' then parse_array n (v # acc) (skip_ws r')
                else None)))"
| "parse_object 0 acc s = None"
| "parse_object (Suc n) acc s =
     (case s of
        [] \<Rightarrow> None
      | q # cs \<Rightarrow>
          (if q \<noteq> CHR 0x22 then None
           else
             (case scan_string [] cs of
                None \<Rightarrow> None
              | Some (k, r) \<Rightarrow>
                  (case skip_ws r of
                     [] \<Rightarrow> None
                   | col # r1 \<Rightarrow>
                       (if col \<noteq> CHR '':'' then None
                        else
                          (case parse_value n (skip_ws r1) of
                             None \<Rightarrow> None
                           | Some (v, r2) \<Rightarrow>
                               (case skip_ws r2 of
                                  [] \<Rightarrow> None
                                | d # r3 \<Rightarrow>
                                    (if d = CHR ''}'' then Some (JObj (rev ((k, v) # acc)), r3)
                                     else if d = CHR '','' then
                                       parse_object n ((k, v) # acc) (skip_ws r3)
                                     else None))))))))"

text \<open>
  \<^verbatim>\<open>json.loads(s)\<close>: leading whitespace, one value, trailing whitespace, and nothing
  else. A failure raises \<^verbatim>\<open>JSONDecodeError\<close>, a subclass of \<^verbatim>\<open>ValueError\<close>.
\<close>

definition json_loads :: "string \<Rightarrow> error + json" where
  "json_loads s =
     (case parse_value (2 * length s + 2) (skip_ws s) of
        None \<Rightarrow> Inl (Exc JSONDecodeError ''Expecting value'')
      | Some (v, r) \<Rightarrow>
          (if skip_ws r = [] then Inr v else Inl (Exc JSONDecodeError ''Extra data'')))"

section \<open>The process, the file system and the collaborators\<close>

text \<open>
  What \<^verbatim>\<open>get_octoprint_basedir\<close> reads of the running process: \<^verbatim>\<open>sys.argv\<close>, the
  environment variable \<^verbatim>\<open>OCTOPRINT_BASEDIR\<close>, the command line that \<^verbatim>\<open>psutil\<close>
  reports (or the error it raises), and the default directory
  \<^verbatim>\<open>os.path.expanduser('~/.octoprint')\<close> with whether it exists.
\<close>

record proc_env =
  argv :: "string list"
  environ_basedir :: "string option"
  cmdline :: "error + string list"
  default_path :: string
  default_path_exists :: bool

text \<open>
  A pid file: its text, the error that opening or reading it raises (if any), and the error
  that \<^verbatim>\<open>os.remove\<close> raises on it (if any).
\<close>

record lock_file =
  content :: string
  read_error :: "error option"
  remove_error :: "error option"

datatype log_level = DEBUG | INFO | WARNING

text \<open>The gateway process that \<^verbatim>\<open>subprocess.Popen\<close> returns.\<close>

record child =
  child_pid :: int
  exit_code :: int

text \<open>
  The \<^verbatim>\<open>WebSocketClient\<close> of \<^verbatim>\<open>ws.py\<close>, as far as \<^verbatim>\<open>janus.py\<close> uses it: whether it
  is connected, what was sent through it, whether it was closed, and the errors that its
  \<^verbatim>\<open>send\<close> and \<^verbatim>\<open>close\<close> raise (if any).
\<close>

record ws_client =
  ws_connected :: bool
  ws_sent :: "string list"
  ws_closed :: bool
  ws_send_error :: "error option"
  ws_close_error :: "error option"

text \<open>
  Everything outside the object that the code reads or changes:
  \<^item> \<open>files\<close>: the files by path; \<open>pid_exists\<close>: \<^verbatim>\<open>psutil.pid_exists\<close>;
  \<^item> \<open>log\<close>: the records given to the logger, oldest first;
  \<^item> \<open>kill_calls\<close>: the arguments of the \<^verbatim>\<open>kill\<close> commands run so far, and
    \<open>kill_error\<close>: what \<^verbatim>\<open>subprocess.run(['kill', arg], check=True)\<close> raises;
  \<^item> \<open>port_close_error\<close>, \<open>port_open_error\<close>: what \<^verbatim>\<open>wait_for_port_to_close\<close> and
    \<^verbatim>\<open>wait_for_port\<close> of \<^verbatim>\<open>utils.py\<close> raise;
  \<^item> \<open>popen\<close>: the result of \<^verbatim>\<open>subprocess.Popen\<close> on a command and an environment;
    \<open>environ_ld_library_path\<close>: the variable \<^verbatim>\<open>LD_LIBRARY_PATH\<close>;
    \<open>pid_write_error\<close>: what writing the pid file raises;
  \<^item> \<open>ws_connect\<close>: the result of constructing the \<^verbatim>\<open>WebSocketClient\<close>;
  \<^item> \<open>sentry\<close>: the exceptions given to \<^verbatim>\<open>plugin.sentry.captureException\<close>;
  \<^item> \<open>upstream\<close>: the messages given to \<^verbatim>\<open>plugin.send_ws_msg_to_server\<close>, each a
    dictionary, and \<open>upstream_error\<close>: what that call raises.
\<close>

record world =
  files :: "string \<rightharpoonup> lock_file"
  pid_exists :: "int \<Rightarrow> bool"
  log :: "(log_level \<times> string) list"
  kill_calls :: "string list"
  kill_error :: "string \<Rightarrow> error option"
  port_close_error :: "error option"
  port_open_error :: "error option"
  popen :: "string list \<Rightarrow> (string \<times> string) list \<Rightarrow> error + child"
  environ_ld_library_path :: "string option"
  pid_write_error :: "error option"
  ws_connect :: "error + ws_client"
  sentry :: "error list"
  upstream :: "(string \<times> string) list list"
  upstream_error :: "error option"

definition log_msg :: "log_level \<Rightarrow> string \<Rightarrow> world \<Rightarrow> world" where
  "log_msg lvl m w = w\<lparr>log := log w @ [(lvl, m)]\<rparr>"

definition captureException :: "error \<Rightarrow> world \<Rightarrow> world" where
  "captureException e w = w\<lparr>sentry := sentry w @ [e]\<rparr>"

text \<open>\<^verbatim>\<open>os.path.exists\<close>, reading a file as text, and \<^verbatim>\<open>os.remove\<close>.\<close>

definition path_exists :: "world \<Rightarrow> string \<Rightarrow> bool" where
  "path_exists w p = (files w p \<noteq> None)"

definition open_read :: "world \<Rightarrow> string \<Rightarrow> error + string" where
  "open_read w p =
     (case files w p of
        None \<Rightarrow> Inl (Exc FileNotFoundError (''[Errno 2] No such file or directory: '' @ p))
      | Some f \<Rightarrow> (case read_error f of Some e \<Rightarrow> Inl e | None \<Rightarrow> Inr (content f)))"

definition os_remove :: "world \<Rightarrow> string \<Rightarrow> error + world" where
  "os_remove w p =
     (case files w p of
        None \<Rightarrow> Inl (Exc FileNotFoundError (''[Errno 2] No such file or directory: '' @ p))
      | Some f \<Rightarrow>
          (case remove_error f of
             Some e \<Rightarrow> Inl e
           | None \<Rightarrow> Inr (w\<lparr>files := (files w)(p := None)\<rparr>)))"

text \<open>
  \<^verbatim>\<open>with open(p, 'w') as f: f.write(text)\<close>: a new file, or new text in the file that
  is there.
\<close>

definition open_write :: "world \<Rightarrow> string \<Rightarrow> string \<Rightarrow> error + world" where
  "open_write w p text =
     (case pid_write_error w of
        Some e \<Rightarrow> Inl e
      | None \<Rightarrow>
          Inr (w\<lparr>files := (files w)(p \<mapsto>
                 (case files w p of
                    None \<Rightarrow> \<lparr>content = text, read_error = None, remove_error = None\<rparr>
                  | Some f \<Rightarrow> f\<lparr>content := text\<rparr>))\<rparr>))"

section \<open>Port allocation\<close>

definition JANUS_BASE_PORT :: int where
  "JANUS_BASE_PORT = 17730"

definition JANUS_PORT_GAP :: int where
  "JANUS_PORT_GAP = 20"

text \<open>
  The loops of \<^verbatim>\<open>get_octoprint_basedir\<close> over an argument list: the value of the first
  \<^verbatim>\<open>--basedir VALUE\<close> or \<^verbatim>\<open>--basedir=VALUE\<close>, if there is one.
\<close>

fun basedir_arg :: "string list \<Rightarrow> string option" where
  "basedir_arg [] = None"
| "basedir_arg (arg # rest) =
     (if arg = ''--basedir'' \<and> rest \<noteq> [] then Some (hd rest)
      else if startswith arg ''--basedir='' then Some (split_eq_snd arg)
      else basedir_arg rest)"

definition get_octoprint_basedir :: "proc_env \<Rightarrow> string" where
  "get_octoprint_basedir env =
     (case basedir_arg (argv env) of
        Some b \<Rightarrow> b
      | None \<Rightarrow>
          (let basedir = (case environ_basedir env of Some v \<Rightarrow> v | None \<Rightarrow> [])
           in if basedir \<noteq> [] then basedir
              else
                (case (case cmdline env of Inl e \<Rightarrow> None | Inr args \<Rightarrow> basedir_arg args) of
                   Some b \<Rightarrow> b
                 | None \<Rightarrow> if default_path_exists env then default_path env else [])))"

text \<open>The first 16 hexadecimal digits of the SHA-256 digest of the basedir, as a number.\<close>

definition hash_val :: "string \<Rightarrow> error + int" where
  "hash_val basedir = py_int16 (take 16 (hexdigest (sha256 basedir)))"

definition get_instance_port_offset :: "proc_env \<Rightarrow> world \<Rightarrow> error + (int \<times> world)" where
  "get_instance_port_offset env w =
     (let basedir = get_octoprint_basedir env
      in if basedir \<noteq> [] then
           (case hash_val basedir of
              Inl e \<Rightarrow> Inl e
            | Inr h \<Rightarrow>
                (let slot = h mod 10;
                     offset = slot * JANUS_PORT_GAP
                 in Inr (offset,
                      log_msg DEBUG (''Instance basedir: '' @ basedir @ '', slot: '' @ str_int slot
                        @ '', port offset: '' @ str_int offset) w)))
         else Inr (0, w))"

definition pid_file_path :: "int \<Rightarrow> string" where
  "pid_file_path port = ''/tmp/obico-janus-'' @ str_int port @ ''.pid''"

text \<open>
  The body of the \<^verbatim>\<open>try\<close> in the loop of \<^verbatim>\<open>calculate_janus_ports\<close>: read the pid, and
  when no such process exists remove the file. \<open>Inr (True, w')\<close>: the file was stale and is
  removed, the loop returns; \<open>Inr (False, w)\<close>: the process exists, the loop goes on;
  \<open>Inl e\<close>: \<open>e\<close> was raised.
\<close>

definition check_pid_file :: "world \<Rightarrow> string \<Rightarrow> error + (bool \<times> world)" where
  "check_pid_file w pid_file =
     (case open_read w pid_file of
        Inl e \<Rightarrow> Inl e
      | Inr text \<Rightarrow>
          (case py_int (py_strip text) of
             Inl e \<Rightarrow> Inl e
           | Inr pid \<Rightarrow>
               (if \<not> pid_exists w pid then
                  (case os_remove w pid_file of Inl e \<Rightarrow> Inl e | Inr w' \<Rightarrow> Inr (True, w'))
                else Inr (False, w))))"

text \<open>
  The loop \<^verbatim>\<open>for i in range(5)\<close>, over the indices that are left. \<open>Inr (Some p, w')\<close>: the
  loop returned \<open>p\<close>; \<open>Inr (None, w')\<close>: the loop ended; \<open>Inl e\<close>: \<open>e\<close> was raised and
  not caught.
\<close>

fun probe_ports :: "int \<Rightarrow> int list \<Rightarrow> world \<Rightarrow> error + (int option \<times> world)" where
  "probe_ports base_port [] w = Inr (None, w)"
| "probe_ports base_port (i # rest) w =
     (let test_port = base_port + i * JANUS_PORT_GAP;
          pid_file = pid_file_path test_port
      in if \<not> path_exists w pid_file then Inr (Some test_port, w)
         else
           (case check_pid_file w pid_file of
              Inr (stale, w') \<Rightarrow>
                (if stale then Inr (Some test_port, w') else probe_ports base_port rest w')
            | Inl e \<Rightarrow>
                (if caught_by [ValueError, FileNotFoundError, PermissionError] e then
                   Inr (Some test_port,
                        (case os_remove w pid_file of Inl e' \<Rightarrow> w | Inr w' \<Rightarrow> w'))
                 else Inl e)))"

definition calculate_janus_ports :: "proc_env \<Rightarrow> world \<Rightarrow> error + (int \<times> world)" where
  "calculate_janus_ports env w =
     (case get_instance_port_offset env w of
        Inl e \<Rightarrow> Inl e
      | Inr (offset, w1) \<Rightarrow>
          (let base_port = JANUS_BASE_PORT + offset
           in case probe_ports base_port [0, 1, 2, 3, 4] w1 of
                Inl e \<Rightarrow> Inl e
              | Inr (Some p, w2) \<Rightarrow> Inr (p, w2)
              | Inr (None, w2) \<Rightarrow>
                  Inr (base_port,
                       log_msg WARNING
                         (''Could not find available Janus port, using '' @ str_int base_port) w2)))"

text \<open>
  The module's globals, computed when it is loaded, and \<^verbatim>\<open>RUNTIME_JANUS_ETC_DIR\<close>, which
  it imports from \<^verbatim>\<open>janus_config_builder\<close>.
\<close>

record module_globals =
  JANUS_WS_PORT :: int
  JANUS_ADMIN_WS_PORT :: int
  RUNTIME_JANUS_ETC_DIR :: string

definition load_module :: "string \<Rightarrow> proc_env \<Rightarrow> world \<Rightarrow> error + (module_globals \<times> world)" where
  "load_module etc_dir env w =
     (case calculate_janus_ports env w of
        Inl e \<Rightarrow> Inl e
      | Inr (port, w1) \<Rightarrow>
          Inr (\<lparr>JANUS_WS_PORT = port, JANUS_ADMIN_WS_PORT = port + 1,
                RUNTIME_JANUS_ETC_DIR = etc_dir\<rparr>,
               log_msg INFO (''Janus ports for this instance: WS='' @ str_int port @ '', Admin=''
                 @ str_int (port + 1) @ '' (basedir: '' @ get_octoprint_basedir env @ '')'') w1))"

definition janus_pid_file_path :: "module_globals \<Rightarrow> string" where
  "janus_pid_file_path g = pid_file_path (JANUS_WS_PORT g)"

section \<open>The class \<^verbatim>\<open>JanusConn\<close>\<close>

text \<open>
  The object's fields. Its \<^verbatim>\<open>plugin\<close> is reached through the world (\<open>sentry\<close>,
  \<open>upstream\<close>). A method gives back the error it raised, if any, with the object
  and the world as it left them: \<open>(Some e, ...)\<close> when \<open>e\<close> propagates to the caller,
  \<open>(None, ...)\<close> when the method returns.
\<close>

record janus_conn =
  janus_server :: string
  janus_ws :: "ws_client option"
  shutting_down :: bool

definition init_conn :: "string \<Rightarrow> janus_conn" where
  "init_conn server = \<lparr>janus_server = server, janus_ws = None, shutting_down = False\<rparr>"

text \<open>A background task: still waiting at its suspension point, or finished.\<close>

datatype 'a task = Blocked 'a | Done 'a

fun task_state :: "'a task \<Rightarrow> 'a" where
  "task_state (Blocked x) = x"
| "task_state (Done x) = x"

text \<open>
  The loop \<^verbatim>\<open>while True\<close> of \<^verbatim>\<open>run_janus_forever\<close>, over the results of
  \<^verbatim>\<open>readline\<close> seen so far: a line is logged; the empty string, which is the end of the
  stream, logs the exit code that \<^verbatim>\<open>wait()\<close> gives and returns. With no further result
  the task waits in \<^verbatim>\<open>readline\<close>.
\<close>

fun monitor_loop :: "child \<Rightarrow> string list \<Rightarrow> world \<Rightarrow> world task" where
  "monitor_loop proc [] w = Blocked w"
| "monitor_loop proc (line # rest) w =
     (if line \<noteq> [] then monitor_loop proc rest (log_msg DEBUG (''JANUS: '' @ py_rstrip line) w)
      else Done (log_msg WARNING (''Janus quit with exit code '' @ str_int (exit_code proc)) w))"

definition janus_cmd :: "module_globals \<Rightarrow> string \<Rightarrow> string" where
  "janus_cmd g janus_bin_path =
     janus_bin_path @ '' --stun-server=stun.l.google.com:19302 --configs-folder ''
       @ RUNTIME_JANUS_ETC_DIR g"

definition janus_env :: "string \<Rightarrow> world \<Rightarrow> (string \<times> string) list" where
  "janus_env ld_lib_path w =
     (if ld_lib_path \<noteq> [] then
        [(''LD_LIBRARY_PATH'',
          ld_lib_path @ '':'' @ (case environ_ld_library_path w of Some v \<Rightarrow> v | None \<Rightarrow> []))]
      else [])"

text \<open>The text of a dictionary of strings in a log record.\<close>

definition repr_env :: "(string \<times> string) list \<Rightarrow> string" where
  "repr_env env =
     ''{'' @ concat (map (\<lambda>(k, v). [CHR 0x27] @ k @ [CHR 0x27] @ '': '' @ [CHR 0x27] @ v @ [CHR 0x27]) env)
       @ ''}''"

text \<open>
  \<^verbatim>\<open>run_janus_forever\<close>, the function that \<^verbatim>\<open>start\<close> runs in a thread. \<open>lines\<close> are
  the results of \<^verbatim>\<open>readline\<close> so far. What the body raises is caught by
  \<^verbatim>\<open>except Exception\<close> and given to \<^verbatim>\<open>sentry.captureException\<close>; an error of another
  kind would end the task (\<open>Some ex\<close>).
\<close>

definition run_janus_body ::
  "module_globals \<Rightarrow> string \<Rightarrow> string \<Rightarrow> string list \<Rightarrow> world \<Rightarrow> error option \<times> world task" where
  "run_janus_body g janus_bin_path ld_lib_path lines w =
     (let cmd = janus_cmd g janus_bin_path;
          env = janus_env ld_lib_path w;
          w1 = log_msg DEBUG (''Popen: '' @ repr_env env @ '' '' @ cmd) w
      in case popen w1 (py_split cmd) env of
           Inl e \<Rightarrow> (Some e, Done w1)
         | Inr janus_proc \<Rightarrow>
             (case open_write w1 (janus_pid_file_path g) (str_int (child_pid janus_proc)) of
                Inl e \<Rightarrow> (Some e, Done w1)
              | Inr w2 \<Rightarrow> (None, monitor_loop janus_proc lines w2)))"

definition run_janus_forever ::
  "module_globals \<Rightarrow> janus_conn \<Rightarrow> string \<Rightarrow> string \<Rightarrow> string list \<Rightarrow> world
    \<Rightarrow> error option \<times> world task" where
  "run_janus_forever g c janus_bin_path ld_lib_path lines w =
     (case run_janus_body g janus_bin_path ld_lib_path lines w of
        (None, t) \<Rightarrow> (None, t)
      | (Some ex, t) \<Rightarrow>
          (if caught_by [Exception] ex then (None, Done (captureException ex (task_state t)))
           else (Some ex, t)))"

text \<open>
  \<^verbatim>\<open>subprocess.run(['kill', arg], check=True)\<close>, and the waits of \<^verbatim>\<open>utils.py\<close>, which
  change nothing and raise what the world says.
\<close>

definition run_kill :: "string \<Rightarrow> world \<Rightarrow> error option \<times> world" where
  "run_kill arg w = (kill_error w arg, w\<lparr>kill_calls := kill_calls w @ [arg]\<rparr>)"

definition wait_for_port_to_close :: "string \<Rightarrow> int \<Rightarrow> world \<Rightarrow> error option \<times> world" where
  "wait_for_port_to_close host port w = (port_close_error w, w)"

definition wait_for_port :: "string \<Rightarrow> int \<Rightarrow> world \<Rightarrow> error option \<times> world" where
  "wait_for_port host port w = (port_open_error w, w)"

text \<open>The first \<^verbatim>\<open>try\<close> body of \<^verbatim>\<open>kill_janus_if_running\<close>.\<close>

definition kill_recorded_pid :: "module_globals \<Rightarrow> janus_conn \<Rightarrow> world \<Rightarrow> error option \<times> world" where
  "kill_recorded_pid g c w =
     (case open_read w (janus_pid_file_path g) of
        Inl e \<Rightarrow> (Some e, w)
      | Inr text \<Rightarrow>
          (case run_kill text w of
             (Some e, w1) \<Rightarrow> (Some e, w1)
           | (None, w1) \<Rightarrow> wait_for_port_to_close (janus_server c) (JANUS_WS_PORT g) w1))"

text \<open>The second \<^verbatim>\<open>try\<close> of \<^verbatim>\<open>kill_janus_if_running\<close>, whose bare \<^verbatim>\<open>except\<close> passes.\<close>

definition remove_pid_file :: "module_globals \<Rightarrow> world \<Rightarrow> error option \<times> world" where
  "remove_pid_file g w =
     (case os_remove w (janus_pid_file_path g) of Inl e \<Rightarrow> (None, w) | Inr w' \<Rightarrow> (None, w'))"

definition kill_janus_if_running :: "module_globals \<Rightarrow> janus_conn \<Rightarrow> world \<Rightarrow> error option \<times> world" where
  "kill_janus_if_running g c w =
     (case kill_recorded_pid g c w of
        (None, w1) \<Rightarrow> remove_pid_file g w1
      | (Some e, w1) \<Rightarrow>
          (if caught_by [Exception] e
           then remove_pid_file g (log_msg WARNING (''Failed to shutdown Janus - '' @ str_error e) w1)
           else (Some e, w1)))"

definition connected :: "janus_conn \<Rightarrow> bool" where
  "connected c = (case janus_ws c of None \<Rightarrow> False | Some ws \<Rightarrow> ws_connected ws)"

definition ws_send :: "string \<Rightarrow> ws_client \<Rightarrow> error option \<times> ws_client" where
  "ws_send msg ws =
     (case ws_send_error ws of
        Some e \<Rightarrow> (Some e, ws)
      | None \<Rightarrow> (None, ws\<lparr>ws_sent := ws_sent ws @ [msg]\<rparr>))"

definition ws_close :: "ws_client \<Rightarrow> error option \<times> ws_client" where
  "ws_close ws =
     (case ws_close_error ws of
        Some e \<Rightarrow> (Some e, ws)
      | None \<Rightarrow> (None, ws\<lparr>ws_connected := False, ws_closed := True\<rparr>))"

definition pass_to_janus :: "janus_conn \<Rightarrow> string \<Rightarrow> error option \<times> janus_conn" where
  "pass_to_janus c msg =
     (if connected c then
        (case janus_ws c of
           None \<Rightarrow> (None, c)
         | Some ws \<Rightarrow> (case ws_send msg ws of (r, ws') \<Rightarrow> (r, c\<lparr>janus_ws := Some ws'\<rparr>)))
      else (None, c))"

definition wait_for_janus :: "module_globals \<Rightarrow> janus_conn \<Rightarrow> world \<Rightarrow> error option \<times> world" where
  "wait_for_janus g c w = wait_for_port (janus_server c) (JANUS_WS_PORT g) w"

definition start_janus_ws :: "module_globals \<Rightarrow> janus_conn \<Rightarrow> world \<Rightarrow> error option \<times> janus_conn" where
  "start_janus_ws g c w =
     (case ws_connect w of
        Inl e \<Rightarrow> (Some e, c)
      | Inr ws \<Rightarrow> (None, c\<lparr>janus_ws := Some ws\<rparr>))"

text \<open>
  \<^verbatim>\<open>start\<close>. The thread that \<^verbatim>\<open>run_in_thread\<close> starts has, when \<^verbatim>\<open>start\<close> goes on,
  run up to its first \<^verbatim>\<open>readline\<close> or to its end; an error that ends the thread stays in
  the thread.
\<close>

definition start ::
  "module_globals \<Rightarrow> janus_conn \<Rightarrow> string \<Rightarrow> string \<Rightarrow> world \<Rightarrow> error option \<times> janus_conn \<times> world" where
  "start g c janus_bin_path ld_lib_path w =
     (case kill_janus_if_running g c w of
        (Some e, w1) \<Rightarrow> (Some e, c, w1)
      | (None, w1) \<Rightarrow>
          (let w2 = task_state (snd (run_janus_forever g c janus_bin_path ld_lib_path [] w1))
           in case wait_for_janus g c w2 of
                (Some e, w3) \<Rightarrow> (Some e, c, w3)
              | (None, w3) \<Rightarrow>
                  (case start_janus_ws g c w3 of (r, c') \<Rightarrow> (r, c', w3))))"

definition shutdown ::
  "module_globals \<Rightarrow> janus_conn \<Rightarrow> world \<Rightarrow> error option \<times> janus_conn \<times> world" where
  "shutdown g c w =
     (let c1 = c\<lparr>shutting_down := True\<rparr>
      in case (case janus_ws c1 of
                 None \<Rightarrow> (None, c1)
               | Some ws \<Rightarrow> (case ws_close ws of (r, ws') \<Rightarrow> (r, c1\<lparr>janus_ws := Some ws'\<rparr>))) of
           (Some e, c2) \<Rightarrow> (Some e, c2, w)
         | (None, c2) \<Rightarrow>
             (let c3 = c2\<lparr>janus_ws := None\<rparr>
              in case kill_janus_if_running g c3 w of (r, w') \<Rightarrow> (r, c3, w')))"

definition send_ws_msg_to_server :: "(string \<times> string) list \<Rightarrow> world \<Rightarrow> error option \<times> world" where
  "send_ws_msg_to_server d w =
     (case upstream_error w of
        Some e \<Rightarrow> (Some e, w)
      | None \<Rightarrow> (None, w\<lparr>upstream := upstream w @ [d]\<rparr>))"

text \<open>
  The body of the \<^verbatim>\<open>try\<close> of \<^verbatim>\<open>process_janus_msg\<close>. The decoded message is logged
  by its source text; what is sent on is \<^verbatim>\<open>dict(janus=raw_msg)\<close>.
\<close>

definition process_janus_body :: "string \<Rightarrow> world \<Rightarrow> error option \<times> world" where
  "process_janus_body raw_msg w =
     (case json_loads raw_msg of
        Inl e \<Rightarrow> (Some e, w)
      | Inr msg \<Rightarrow>
          send_ws_msg_to_server [(''janus'', raw_msg)]
            (log_msg DEBUG raw_msg (log_msg DEBUG ''Relaying Janus msg'' w)))"

definition process_janus_msg :: "janus_conn \<Rightarrow> string \<Rightarrow> world \<Rightarrow> error option \<times> world" where
  "process_janus_msg c raw_msg w =
     (case process_janus_body raw_msg w of
        (None, w') \<Rightarrow> (None, w')
      | (Some e, w') \<Rightarrow> (None, captureException e w'))"

section \<open>States of a lock\<close>

text \<open>
  What the allocation finds at a candidate port. \<open>lock_pid\<close> is the pid that its file
  records, or the error that reading the file or converting its text raises.
  \<^item> \<open>lock_free\<close>: there is no pid file;
  \<^item> \<open>holder_alive\<close>: the file records the pid of a process that exists;
  \<^item> \<open>holder_dead\<close>: the file records a pid, and no such process exists;
  \<^item> \<open>lock_corrupt\<close>: the file is there, and reading it or converting its text raises
    one of the errors that the allocation catches (it cannot be read, or its text is no
    integer).
\<close>

definition lock_pid :: "world \<Rightarrow> int \<Rightarrow> error + int" where
  "lock_pid w port =
     (case open_read w (pid_file_path port) of
        Inl e \<Rightarrow> Inl e
      | Inr text \<Rightarrow> py_int (py_strip text))"

definition lock_free :: "world \<Rightarrow> int \<Rightarrow> bool" where
  "lock_free w port = (files w (pid_file_path port) = None)"

definition holder_alive :: "world \<Rightarrow> int \<Rightarrow> bool" where
  "holder_alive w port =
     (case lock_pid w port of Inl e \<Rightarrow> False | Inr pid \<Rightarrow> pid_exists w pid)"

definition holder_dead :: "world \<Rightarrow> int \<Rightarrow> bool" where
  "holder_dead w port =
     (case lock_pid w port of Inl e \<Rightarrow> False | Inr pid \<Rightarrow> \<not> pid_exists w pid)"

definition lock_corrupt :: "world \<Rightarrow> int \<Rightarrow> bool" where
  "lock_corrupt w port =
     (files w (pid_file_path port) \<noteq> None \<and>
      (case lock_pid w port of
         Inl e \<Rightarrow> caught_by [ValueError, FileNotFoundError, PermissionError] e
       | Inr pid \<Rightarrow> False))"

text \<open>
  \<open>removable\<close>: \<^verbatim>\<open>os.remove\<close> succeeds on the file. \<open>removal_caught\<close>: it succeeds, or
  raises an error that the allocation catches. \<open>remove_quietly\<close>: the world after
  \<^verbatim>\<open>os.remove\<close> in a \<^verbatim>\<open>try\<close> whose \<^verbatim>\<open>except\<close> passes.
\<close>

definition removable :: "world \<Rightarrow> string \<Rightarrow> bool" where
  "removable w p = (case files w p of None \<Rightarrow> False | Some f \<Rightarrow> remove_error f = None)"

definition removal_caught :: "world \<Rightarrow> string \<Rightarrow> bool" where
  "removal_caught w p =
     (case os_remove w p of
        Inl e \<Rightarrow> caught_by [ValueError, FileNotFoundError, PermissionError] e
      | Inr w' \<Rightarrow> True)"

definition remove_quietly :: "world \<Rightarrow> string \<Rightarrow> world" where
  "remove_quietly w p = (case os_remove w p of Inl e \<Rightarrow> w | Inr w' \<Rightarrow> w')"

text \<open>
  \<open>lock_stale\<close>: the lock is one that the allocation reclaims, a dead holder's whose
  removal raises nothing that escapes, or a corrupt one.
\<close>

definition lock_stale :: "world \<Rightarrow> int \<Rightarrow> bool" where
  "lock_stale w port =
     ((holder_dead w port \<and> removal_caught w (pid_file_path port)) \<or> lock_corrupt w port)"

section \<open>Example states\<close>

text \<open>
  Concrete inputs for the examples below: a process started without any basedir (the
  offset is then 0 and the first candidate port 17730), the same process started with
  \<^verbatim>\<open>--basedir /home/user/.octoprint\<close>, a world with no pid file and no process in
  which every operation succeeds, the globals of a module loaded on port 17730, and a pid
  file that can be read and removed.
\<close>

definition env_plain :: proc_env where
  "env_plain =
     \<lparr>argv = [''octoprint'', ''serve''], environ_basedir = None,
      cmdline = Inr [''/usr/bin/python3'', ''/usr/bin/octoprint'', ''serve''],
      default_path = ''/root/.octoprint'', default_path_exists = False\<rparr>"

definition env_home :: proc_env where
  "env_home = env_plain\<lparr>argv := [''octoprint'', ''serve'', ''--basedir'', ''/home/user/.octoprint'']\<rparr>"

definition quiet_world :: world where
  "quiet_world =
     \<lparr>files = Map.empty, pid_exists = (\<lambda>pid. False), log = [], kill_calls = [],
      kill_error = (\<lambda>arg. None), port_close_error = None, port_open_error = None,
      popen = (\<lambda>cmd env. Inr \<lparr>child_pid = 4242, exit_code = 1\<rparr>),
      environ_ld_library_path = None, pid_write_error = None,
      ws_connect = Inr \<lparr>ws_connected = True, ws_sent = [], ws_closed = False,
                         ws_send_error = None, ws_close_error = None\<rparr>,
      sentry = [], upstream = [], upstream_error = None\<rparr>"

definition globals_17730 :: module_globals where
  "globals_17730 =
     \<lparr>JANUS_WS_PORT = 17730, JANUS_ADMIN_WS_PORT = 17731,
      RUNTIME_JANUS_ETC_DIR = ''/tmp/janus/etc''\<rparr>"

definition plain_file :: "string \<Rightarrow> lock_file" where
  "plain_file s = \<lparr>content = s, read_error = None, remove_error = None\<rparr>"

text \<open>
  Further inputs: an object as \<^verbatim>\<open>__init__\<close> leaves it; a world with the pid file of a
  live process 4242 on port 17730 and a \<^verbatim>\<open>kill\<close> that fails; worlds in which the
  gateway binary is missing, once with a wait for the port that times out; a pid file of
  another user, which can be read but not removed, and one that can be neither read nor
  removed; worlds with such files at the candidate ports from 17730 on; and the world
  that loading the module leaves when all five candidates are held by live processes.
\<close>

definition conn0 :: janus_conn where
  "conn0 = init_conn ''127.0.0.1''"

definition world_orphan :: world where
  "world_orphan =
     quiet_world\<lparr>files := [pid_file_path 17730 \<mapsto> plain_file ''4242''],
                 pid_exists := (\<lambda>pid. pid = 4242),
                 kill_error := (\<lambda>arg. Some (Exc CalledProcessError ''kill returned non-zero exit status 1''))\<rparr>"

definition world_no_binary :: world where
  "world_no_binary =
     quiet_world\<lparr>popen := (\<lambda>cmd env. Inl (Exc FileNotFoundError
        ''[Errno 2] No such file or directory: /opt/janus/bin/janus''))\<rparr>"

definition world_no_binary_timeout :: world where
  "world_no_binary_timeout =
     world_no_binary\<lparr>port_open_error := Some (Exc TimeoutError ''port did not open'')\<rparr>"

definition foreign_file :: "string \<Rightarrow> lock_file" where
  "foreign_file s =
     \<lparr>content = s, read_error = None,
      remove_error = Some (Exc PermissionError ''[Errno 1] Operation not permitted'')\<rparr>"

definition unreadable_file :: lock_file where
  "unreadable_file =
     \<lparr>content = ''4242'',
      read_error = Some (Exc PermissionError ''[Errno 13] Permission denied''),
      remove_error = Some (Exc PermissionError ''[Errno 1] Operation not permitted'')\<rparr>"

definition world_collision :: world where
  "world_collision =
     quiet_world\<lparr>files := [pid_file_path 17730 \<mapsto> plain_file ''100''],
                 pid_exists := (\<lambda>pid. pid = 100)\<rparr>"

definition world_dead_foreign :: world where
  "world_dead_foreign =
     quiet_world\<lparr>files := [pid_file_path 17730 \<mapsto> foreign_file ''4242''],
                 kill_error := (\<lambda>arg. Some (Exc CalledProcessError ''kill returned non-zero exit status 1''))\<rparr>"

definition world_unreadable :: world where
  "world_unreadable = quiet_world\<lparr>files := [pid_file_path 17730 \<mapsto> unreadable_file]\<rparr>"

definition world_two_stale :: world where
  "world_two_stale =
     quiet_world\<lparr>files := [pid_file_path 17730 \<mapsto> plain_file ''111'',
                            pid_file_path 17750 \<mapsto> plain_file ''222'']\<rparr>"

definition world_exhausted :: world where
  "world_exhausted =
     quiet_world\<lparr>files := [pid_file_path 17730 \<mapsto> plain_file ''100'',
                            pid_file_path 17750 \<mapsto> plain_file ''101'',
                            pid_file_path 17770 \<mapsto> plain_file ''102'',
                            pid_file_path 17790 \<mapsto> plain_file ''103'',
                            pid_file_path 17810 \<mapsto> plain_file ''104''],
                 pid_exists := (\<lambda>pid. 100 \<le> pid \<and> pid \<le> 104)\<rparr>"

definition world_exhausted_loaded :: world where
  "world_exhausted_loaded =
     log_msg INFO ''Janus ports for this instance: WS=17730, Admin=17731 (basedir: )''
       (log_msg WARNING ''Could not find available Janus port, using 17730'' world_exhausted)"

section \<open>Facts about the primitives\<close>

lemma caught_by_Exception: "caught_by [Exception] e"
  by (cases e; rename_tac k m; case_tac k) (simp_all add: caught_by_def subclass_of_def mro_def)

lemma py_int_error: "py_int s = Inl e \<Longrightarrow> exc_class_of e = ValueError"
  unfolding py_int_def Let_def
  by (cases "py_strip s") (auto split: if_splits option.splits)

lemma py_int_error_caught:
  "py_int s = Inl e \<Longrightarrow> caught_by [ValueError, FileNotFoundError, PermissionError] e"
  by (drule py_int_error) (simp add: caught_by_def subclass_of_def mro_def)


lemma hex_val_hex_char: "d < 16 \<Longrightarrow> is_hex (hex_char d)"
proof -
  assume "d < 16"
  then have "d \<in> {0, 1, 2, 3, 4, 5, 6, 7, 8, 9, 10, 11, 12, 13, 14, 15}"
    by (simp, arith)
  then show ?thesis
    by (auto simp: is_hex_def hex_val_def hex_char_def Let_def)
qed

lemma hex_digits_bound:
  "list_all is_hex cs \<Longrightarrow> 0 \<le> acc \<Longrightarrow>
   \<exists>n. hex_digits acc cs = Some n \<and> 0 \<le> n \<and> n < (acc + 1) * 16 ^ length cs"
proof (induction cs arbitrary: acc)
  case Nil
  then show ?case by simp
next
  case (Cons c cs)
  from Cons.prems obtain d where d: "hex_val c = Some d" by (auto simp: is_hex_def)
  then have d16: "d < 16" by (auto simp: hex_val_def Let_def split: if_splits)
  have "0 \<le> 16 * acc + int d" using Cons.prems by simp
  with Cons.IH[of "16 * acc + int d"] Cons.prems obtain n where
    n: "hex_digits (16 * acc + int d) cs = Some n" "0 \<le> n" "n < (16 * acc + int d + 1) * 16 ^ length cs"
    by auto
  have "(16 * acc + int d + 1) * 16 ^ length cs \<le> (16 * (acc + 1)) * 16 ^ length cs"
    using d16 by (intro mult_right_mono) auto
  with n(3) have "n < (16 * (acc + 1)) * 16 ^ length cs" by linarith
  then have "n < (acc + 1) * 16 ^ length (c # cs)" by (simp add: algebra_simps)
  with n(1,2) d show ?case by simp
qed

lemma unat_and_15: "unat (y AND 15) < 16" for y :: w32
proof -
  have "y AND 15 \<le> 15" by (rule word_and_le1)
  then have "unat (y AND 15) \<le> unat (15 :: w32)" by (simp only: word_le_nat_alt)
  then show ?thesis by simp
qed

lemma hex_word_hex: "list_all is_hex (hex_word x)"
  by (simp add: hex_word_def hex_val_hex_char unat_and_15)

lemma length_hex_word: "length (hex_word x) = 8"
  by (simp add: hex_word_def)

lemma sha256_words: "\<exists>a b c d e f g h. sha256 s = [a, b, c, d, e, f, g, h]"
  by (simp add: sha256_def sha_words_def split: prod.splits)

lemma hash_val_total: "\<exists>h. hash_val s = Inr h \<and> 0 \<le> h \<and> h < 2 ^ 64"
proof -
  obtain a b c d e f g h where w: "sha256 s = [a, b, c, d, e, f, g, h]"
    using sha256_words by blast
  have t: "take 16 (hexdigest (sha256 s)) = hex_word a @ hex_word b"
    by (simp add: w hexdigest_def length_hex_word)
  have "list_all is_hex (hex_word a @ hex_word b)"
    by (simp add: hex_word_hex)
  from hex_digits_bound[OF this, of 0] obtain n where
    n: "hex_digits 0 (hex_word a @ hex_word b) = Some n" "0 \<le> n" "n < 16 ^ 16"
    by (auto simp: length_hex_word)
  have ne: "hex_word a @ hex_word b \<noteq> []" by (simp add: hex_word_def)
  show ?thesis using n ne by (simp add: hash_val_def t py_int16_def)
qed

subsection \<open>The path of a pid file determines its port\<close>

lemma digit_val_digit_char: "d < 10 \<Longrightarrow> digit_val (digit_char d) = Some d"
proof -
  assume "d < 10"
  then have "d \<in> {0, 1, 2, 3, 4, 5, 6, 7, 8, 9}" by (simp, arith)
  then show ?thesis by (auto simp: digit_val_def digit_char_def Let_def)
qed

lemma digit_char_inj: "a < 10 \<Longrightarrow> b < 10 \<Longrightarrow> digit_char a = digit_char b \<Longrightarrow> a = b"
  by (metis digit_val_digit_char option.inject)

lemma digit_char_not_minus: "d < 10 \<Longrightarrow> digit_char d \<noteq> CHR ''-''"
proof -
  assume "d < 10"
  then have "digit_val (digit_char d) = Some d" by (rule digit_val_digit_char)
  moreover have "digit_val CHR ''-'' = None" by (simp add: digit_val_def)
  ultimately show ?thesis by auto
qed

lemma str_nat_nonempty: "str_nat n \<noteq> []"
  by (subst str_nat.simps) simp

lemma str_nat_small: "n < 10 \<Longrightarrow> str_nat n = [digit_char n]"
  by (subst str_nat.simps) simp

lemma str_nat_big: "\<not> n < 10 \<Longrightarrow> str_nat n = str_nat (n div 10) @ [digit_char (n mod 10)]"
  by (subst str_nat.simps) simp

lemma str_nat_inj: "str_nat n = str_nat m \<Longrightarrow> n = m"
proof (induction n arbitrary: m rule: str_nat.induct)
  case (1 n)
  show ?case
  proof (cases "n < 10")
    case n: True
    show ?thesis
    proof (cases "m < 10")
      case True
      with n "1.prems" show ?thesis by (simp add: str_nat_small digit_char_inj)
    next
      case False
      with n "1.prems" show ?thesis
        using str_nat_nonempty[of "m div 10"] by (simp add: str_nat_small str_nat_big)
    qed
  next
    case n: False
    show ?thesis
    proof (cases "m < 10")
      case True
      with n "1.prems" show ?thesis
        using str_nat_nonempty[of "n div 10"] by (simp add: str_nat_small str_nat_big)
    next
      case False
      with n "1.prems" have eq: "str_nat (n div 10) = str_nat (m div 10)"
        "digit_char (n mod 10) = digit_char (m mod 10)"
        by (simp_all add: str_nat_big)
      from "1.IH"[OF n eq(1)] have d: "n div 10 = m div 10" .
      from eq(2) have "n mod 10 = m mod 10" by (intro digit_char_inj) simp_all
      with d show ?thesis by (metis div_mult_mod_eq)
    qed
  qed
qed

lemma hd_str_nat_not_minus: "hd (str_nat n) \<noteq> CHR ''-''"
proof (induction n rule: str_nat.induct)
  case (1 n)
  show ?case
  proof (cases "n < 10")
    case True
    then show ?thesis by (simp add: str_nat_small digit_char_not_minus)
  next
    case False
    with "1.IH" show ?thesis
      using str_nat_nonempty[of "n div 10"] by (simp add: str_nat_big)
  qed
qed

lemma str_int_inj: "str_int a = str_int b \<Longrightarrow> a = b"
proof -
  assume eq: "str_int a = str_int b"
  have neg: "str_int i = CHR ''-'' # str_nat (nat (- i))" if "i < 0" for i
    using that by (simp add: str_int_def)
  have pos: "str_int i = str_nat (nat i)" if "\<not> i < 0" for i
    using that by (simp add: str_int_def)
  show ?thesis
  proof (cases "a < 0"; cases "b < 0")
    assume "a < 0" "b < 0"
    with eq have "nat (- a) = nat (- b)" by (simp add: neg str_nat_inj)
    with \<open>a < 0\<close> \<open>b < 0\<close> show ?thesis by simp
  next
    assume ab: "a < 0" "\<not> b < 0"
    with eq have "CHR ''-'' # str_nat (nat (- a)) = str_nat (nat b)" by (simp add: neg pos)
    then have "hd (str_nat (nat b)) = CHR ''-''" by (metis list.sel(1))
    then show ?thesis using hd_str_nat_not_minus by blast
  next
    assume ab: "\<not> a < 0" "b < 0"
    with eq have "str_nat (nat a) = CHR ''-'' # str_nat (nat (- b))" by (simp add: neg pos)
    then have "hd (str_nat (nat a)) = CHR ''-''" by (metis list.sel(1))
    then show ?thesis using hd_str_nat_not_minus by blast
  next
    assume ab: "\<not> a < 0" "\<not> b < 0"
    with eq have "nat a = nat b" by (simp add: pos str_nat_inj)
    with ab show ?thesis by simp
  qed
qed

lemma pid_file_path_inj: "pid_file_path p = pid_file_path q \<Longrightarrow> p = q"
  by (simp add: pid_file_path_def str_int_inj)

section \<open>The probing loop\<close>

lemma holder_alive_exists: "holder_alive w p \<Longrightarrow> path_exists w (pid_file_path p)"
  by (auto simp: holder_alive_def lock_pid_def open_read_def path_exists_def split: option.splits sum.splits)

lemma check_alive:
  "holder_alive w p \<Longrightarrow> check_pid_file w (pid_file_path p) = Inr (False, w)"
  by (auto simp: holder_alive_def lock_pid_def check_pid_file_def split: sum.splits)

lemma probe_alive_step:
  "holder_alive w (base + i * JANUS_PORT_GAP) \<Longrightarrow>
   probe_ports base (i # rest) w = probe_ports base rest w"
  by (simp add: Let_def holder_alive_exists check_alive)

lemma probe_skip_alive:
  "\<forall>i\<in>set pre. holder_alive w (base + i * JANUS_PORT_GAP) \<Longrightarrow>
   probe_ports base (pre @ rest) w = probe_ports base rest w"
  by (induction pre) (simp_all add: probe_alive_step del: probe_ports.simps)

lemma probe_free_step:
  "lock_free w (base + i * JANUS_PORT_GAP) \<Longrightarrow>
   probe_ports base (i # rest) w = Inr (Some (base + i * JANUS_PORT_GAP), w)"
  by (simp add: Let_def lock_free_def path_exists_def)

lemma probe_stale_step:
  assumes "lock_stale w (base + i * JANUS_PORT_GAP)"
  shows "probe_ports base (i # rest) w =
         Inr (Some (base + i * JANUS_PORT_GAP),
              remove_quietly w (pid_file_path (base + i * JANUS_PORT_GAP)))"
proof -
  let ?p = "base + i * JANUS_PORT_GAP"
  let ?f = "pid_file_path ?p"
  from assms consider
    (dead) "holder_dead w ?p" "removal_caught w ?f" | (corrupt) "lock_corrupt w ?p"
    by (auto simp: lock_stale_def)
  then show ?thesis
  proof cases
    case dead
    from dead(1) obtain pid where pid: "lock_pid w ?p = Inr pid" "\<not> pid_exists w pid"
      by (auto simp: holder_dead_def split: sum.splits)
    then obtain body where body: "open_read w ?f = Inr body" "py_int (py_strip body) = Inr pid"
      by (auto simp: lock_pid_def split: sum.splits)
    then have ex: "path_exists w ?f"
      by (auto simp: open_read_def path_exists_def split: option.splits)
    show ?thesis
    proof (cases "os_remove w ?f")
      case (Inl e)
      with dead(2) have "caught_by [ValueError, FileNotFoundError, PermissionError] e"
        by (simp add: removal_caught_def)
      with Inl body pid ex show ?thesis
        by (simp add: Let_def check_pid_file_def remove_quietly_def)
    next
      case (Inr w')
      with body pid ex show ?thesis
        by (simp add: Let_def check_pid_file_def remove_quietly_def)
    qed
  next
    case corrupt
    then have ex: "path_exists w ?f" by (simp add: lock_corrupt_def path_exists_def)
    from corrupt obtain e where e: "lock_pid w ?p = Inl e"
      "caught_by [ValueError, FileNotFoundError, PermissionError] e"
      by (auto simp: lock_corrupt_def split: sum.splits)
    then have "check_pid_file w ?f = Inl e"
      by (auto simp: lock_pid_def check_pid_file_def split: sum.splits)
    with e ex show ?thesis
      by (simp add: Let_def remove_quietly_def split: sum.splits)
  qed
qed

lemma check_pid_file_False:
  "check_pid_file w (pid_file_path p) = Inr (False, w') \<Longrightarrow> w' = w \<and> holder_alive w p"
  by (auto simp: check_pid_file_def holder_alive_def lock_pid_def split: sum.splits if_splits)

lemma check_pid_file_True:
  "check_pid_file w (pid_file_path p) = Inr (True, w') \<Longrightarrow> \<not> holder_alive w p"
  by (auto simp: check_pid_file_def holder_alive_def lock_pid_def split: sum.splits if_splits)

lemma check_pid_file_error:
  "check_pid_file w (pid_file_path p) = Inl e \<Longrightarrow> \<not> holder_alive w p"
  by (auto simp: check_pid_file_def holder_alive_def lock_pid_def split: sum.splits if_splits)

lemma not_exists_not_alive: "\<not> path_exists w (pid_file_path p) \<Longrightarrow> \<not> holder_alive w p"
  using holder_alive_exists by blast

lemma probe_Some_not_alive:
  "probe_ports base cands w = Inr (Some p, w') \<Longrightarrow>
   \<not> holder_alive w p \<and> (\<exists>i\<in>set cands. p = base + i * JANUS_PORT_GAP)"
proof (induction cands)
  case Nil
  then show ?case by simp
next
  case (Cons i rest)
  let ?p = "base + i * JANUS_PORT_GAP"
  show ?case
  proof (cases "path_exists w (pid_file_path ?p)")
    case False
    with Cons.prems show ?thesis by (auto simp: Let_def not_exists_not_alive)
  next
    case True
    show ?thesis
    proof (cases "check_pid_file w (pid_file_path ?p)")
      case (Inl e)
      with True Cons.prems have "p = ?p" by (auto simp: Let_def split: if_splits)
      with Inl show ?thesis by (auto dest: check_pid_file_error)
    next
      case (Inr r)
      obtain stale w1 where r: "r = (stale, w1)" by (cases r)
      show ?thesis
      proof (cases stale)
        case True
        with \<open>path_exists w (pid_file_path ?p)\<close> Inr r Cons.prems have "p = ?p"
          by (auto simp: Let_def)
        with Inr r True show ?thesis by (auto dest: check_pid_file_True)
      next
        case False
        with Inr r have "w1 = w" by (auto dest: check_pid_file_False)
        with \<open>path_exists w (pid_file_path ?p)\<close> Inr r False Cons.prems
        have "probe_ports base rest w = Inr (Some p, w')" by (simp add: Let_def)
        with Cons.IH show ?thesis by auto
      qed
    qed
  qed
qed

lemma probe_None_all_alive:
  "probe_ports base cands w = Inr (None, w') \<Longrightarrow>
   w' = w \<and> (\<forall>i\<in>set cands. holder_alive w (base + i * JANUS_PORT_GAP))"
proof (induction cands)
  case Nil
  then show ?case by simp
next
  case (Cons i rest)
  let ?p = "base + i * JANUS_PORT_GAP"
  from Cons.prems have ex: "path_exists w (pid_file_path ?p)"
    by (auto simp: Let_def split: if_splits)
  from Cons.prems ex obtain w1 where c: "check_pid_file w (pid_file_path ?p) = Inr (False, w1)"
    by (auto simp: Let_def split: sum.splits if_splits)
  then have "w1 = w" "holder_alive w ?p" by (auto dest: check_pid_file_False)
  with Cons.prems ex c have "probe_ports base rest w = Inr (None, w')" by (simp add: Let_def)
  with Cons.IH \<open>holder_alive w ?p\<close> show ?case by auto
qed

section \<open>The allocation as a whole\<close>

lemma offset_frame:
  "get_instance_port_offset env w = Inr (offset, w1) \<Longrightarrow>
   files w1 = files w \<and> pid_exists w1 = pid_exists w"
  by (auto simp: get_instance_port_offset_def Let_def log_msg_def split: if_splits sum.splits)

lemma lock_pid_cong:
  "files w1 = files w \<Longrightarrow> lock_pid w1 p = lock_pid w p"
  by (simp add: lock_pid_def open_read_def)

lemma holder_alive_cong:
  assumes "files w1 = files w" "pid_exists w1 = pid_exists w"
  shows "holder_alive w1 p = holder_alive w p"
  using assms(2) lock_pid_cong[OF assms(1), of p]
  by (cases "lock_pid w p") (simp_all add: holder_alive_def)

lemma lock_free_cong: "files w1 = files w \<Longrightarrow> lock_free w1 p = lock_free w p"
  by (simp add: lock_free_def)

lemma removal_caught_cong: "files w1 = files w \<Longrightarrow> removal_caught w1 f = removal_caught w f"
  by (simp add: removal_caught_def os_remove_def split: option.splits)

lemma removable_cong: "files w1 = files w \<Longrightarrow> removable w1 f = removable w f"
  by (simp add: removable_def)

lemma lock_stale_cong:
  assumes "files w1 = files w" "pid_exists w1 = pid_exists w"
  shows "lock_stale w1 p = lock_stale w p"
  using assms lock_pid_cong[OF assms(1), of p] removal_caught_cong[OF assms(1), of "pid_file_path p"]
  by (cases "lock_pid w p") (simp_all add: lock_stale_def holder_dead_def lock_corrupt_def)

lemma remove_quietly_files:
  "files (remove_quietly w f) = (if removable w f then (files w)(f := None) else files w)"
  by (auto simp: remove_quietly_def os_remove_def removable_def split: option.splits)

lemma remove_quietly_unremovable: "\<not> removable w f \<Longrightarrow> remove_quietly w f = w"
  by (auto simp: remove_quietly_def os_remove_def removable_def split: option.splits)

lemma lock_free_not_alive: "lock_free w p \<Longrightarrow> \<not> holder_alive w p"
  by (auto simp: lock_free_def dest: holder_alive_exists simp: path_exists_def)

lemma lock_stale_not_alive: "lock_stale w p \<Longrightarrow> \<not> holder_alive w p"
  by (auto simp: lock_stale_def holder_dead_def lock_corrupt_def holder_alive_def split: sum.splits)

lemma probe_first_not_alive:
  assumes "\<forall>i\<in>set pre. holder_alive w (base + i * JANUS_PORT_GAP)"
    and "lock_free w (base + k * JANUS_PORT_GAP) \<or> lock_stale w (base + k * JANUS_PORT_GAP)"
  shows "probe_ports base (pre @ k # rest) w =
         Inr (Some (base + k * JANUS_PORT_GAP),
              if lock_free w (base + k * JANUS_PORT_GAP) then w
              else remove_quietly w (pid_file_path (base + k * JANUS_PORT_GAP)))"
proof -
  have "probe_ports base (pre @ k # rest) w = probe_ports base (k # rest) w"
    using assms(1) by (rule probe_skip_alive)
  moreover have "probe_ports base (k # rest) w =
      Inr (Some (base + k * JANUS_PORT_GAP),
           if lock_free w (base + k * JANUS_PORT_GAP) then w
           else remove_quietly w (pid_file_path (base + k * JANUS_PORT_GAP)))"
    using assms(2) probe_free_step[of w base k rest] probe_stale_step[of w base k rest]
    by (cases "lock_free w (base + k * JANUS_PORT_GAP)") simp_all
  ultimately show ?thesis by simp
qed

lemma calculate_unfold:
  "get_instance_port_offset env w = Inr (offset, w1) \<Longrightarrow>
   calculate_janus_ports env w =
     (case probe_ports (JANUS_BASE_PORT + offset) [0, 1, 2, 3, 4] w1 of
        Inl e \<Rightarrow> Inl e
      | Inr (Some p, w2) \<Rightarrow> Inr (p, w2)
      | Inr (None, w2) \<Rightarrow>
          Inr (JANUS_BASE_PORT + offset,
               log_msg WARNING
                 (''Could not find available Janus port, using ''
                    @ str_int (JANUS_BASE_PORT + offset)) w2))"
  by (simp add: calculate_janus_ports_def Let_def)

lemma candidates_split:
  "k \<in> {0, 1, 2, 3, 4} \<Longrightarrow>
   \<exists>pre rest. [0, 1, 2, 3, 4] = pre @ k # rest \<and> set pre = {0..<k}" for k :: int
proof -
  assume "k \<in> {0, 1, 2, 3, 4}"
  then consider "k = 0" | "k = 1" | "k = 2" | "k = 3" | "k = 4" by auto
  then show ?thesis
  proof cases
    case 1
    then show ?thesis by (intro exI[of _ "[]"] exI[of _ "[1, 2, 3, 4]"]) simp
  next
    case 2
    have "{0..<1} = {0::int}" by auto
    with 2 show ?thesis by (intro exI[of _ "[0]"] exI[of _ "[2, 3, 4]"]) simp
  next
    case 3
    have "{0..<2} = {0, 1::int}" by auto
    with 3 show ?thesis by (intro exI[of _ "[0, 1]"] exI[of _ "[3, 4]"]) simp
  next
    case 4
    have "{0..<3} = {0, 1, 2::int}" by auto
    with 4 show ?thesis by (intro exI[of _ "[0, 1, 2]"] exI[of _ "[4]"]) simp
  next
    case 5
    have "{0..<4} = {0, 1, 2, 3::int}" by auto
    with 5 show ?thesis by (intro exI[of _ "[0, 1, 2, 3]"] exI[of _ "[]"]) simp
  qed
qed

lemma calculate_first_not_alive:
  assumes off: "get_instance_port_offset env w = Inr (offset, w1)"
    and k: "k \<in> {0, 1, 2, 3, 4}"
    and alive: "\<forall>i\<in>{0..<k}. holder_alive w (JANUS_BASE_PORT + offset + i * JANUS_PORT_GAP)"
    and kth: "lock_free w (JANUS_BASE_PORT + offset + k * JANUS_PORT_GAP)
              \<or> lock_stale w (JANUS_BASE_PORT + offset + k * JANUS_PORT_GAP)"
  shows "calculate_janus_ports env w =
         Inr (JANUS_BASE_PORT + offset + k * JANUS_PORT_GAP,
              if lock_free w (JANUS_BASE_PORT + offset + k * JANUS_PORT_GAP) then w1
              else remove_quietly w1 (pid_file_path (JANUS_BASE_PORT + offset + k * JANUS_PORT_GAP)))"
proof -
  let ?base = "JANUS_BASE_PORT + offset"
  from offset_frame[OF off] have fr: "files w1 = files w" "pid_exists w1 = pid_exists w" by auto
  from candidates_split[OF k] obtain pre rest where
    sp: "[0, 1, 2, 3, 4] = pre @ k # rest" "set pre = {0..<k}" by blast
  have a1: "\<forall>i\<in>set pre. holder_alive w1 (?base + i * JANUS_PORT_GAP)"
    using alive sp(2) by (simp add: holder_alive_cong[OF fr])
  have k1: "lock_free w1 (?base + k * JANUS_PORT_GAP) \<or> lock_stale w1 (?base + k * JANUS_PORT_GAP)"
    using kth by (simp add: lock_free_cong[OF fr(1)] lock_stale_cong[OF fr])
  from probe_first_not_alive[OF a1 k1, of rest]
  show ?thesis
    by (simp only: calculate_unfold[OF off] sp(1)) (simp add: lock_free_cong[OF fr(1)])
qed

lemma calculate_all_alive:
  assumes off: "get_instance_port_offset env w = Inr (offset, w1)"
    and alive: "\<forall>i\<in>{0, 1, 2, 3, 4}. holder_alive w (JANUS_BASE_PORT + offset + i * JANUS_PORT_GAP)"
  shows "calculate_janus_ports env w =
         Inr (JANUS_BASE_PORT + offset,
              log_msg WARNING (''Could not find available Janus port, using ''
                @ str_int (JANUS_BASE_PORT + offset)) w1)"
proof -
  from offset_frame[OF off] have fr: "files w1 = files w" "pid_exists w1 = pid_exists w" by auto
  have "\<forall>i\<in>set [0, 1, 2, 3, 4]. holder_alive w1 (JANUS_BASE_PORT + offset + i * JANUS_PORT_GAP)"
    using alive by (simp add: holder_alive_cong[OF fr])
  from probe_skip_alive[OF this, of "[]"]
  have "probe_ports (JANUS_BASE_PORT + offset) [0, 1, 2, 3, 4] w1 = Inr (None, w1)" by simp
  then show ?thesis by (simp add: calculate_unfold[OF off])
qed

lemma calculate_result_alive:
  assumes off: "get_instance_port_offset env w = Inr (offset, w1)"
    and res: "calculate_janus_ports env w = Inr (p, w')"
    and alive: "holder_alive w p"
  shows "p = JANUS_BASE_PORT + offset \<and>
         (\<forall>i\<in>{0, 1, 2, 3, 4}. holder_alive w (JANUS_BASE_PORT + offset + i * JANUS_PORT_GAP))"
proof -
  let ?base = "JANUS_BASE_PORT + offset"
  from offset_frame[OF off] have fr: "files w1 = files w" "pid_exists w1 = pid_exists w" by auto
  show ?thesis
  proof (cases "probe_ports ?base [0, 1, 2, 3, 4] w1")
    case (Inl e)
    with res show ?thesis by (simp add: calculate_unfold[OF off])
  next
    case (Inr r)
    obtain po w2 where r: "r = (po, w2)" by (cases r)
    show ?thesis
    proof (cases po)
      case None
      with Inr r res have "p = ?base" by (simp add: calculate_unfold[OF off])
      moreover from probe_None_all_alive[of ?base "[0, 1, 2, 3, 4]" w1 w2] Inr r None
      have "\<forall>i\<in>set [0, 1, 2, 3, 4]. holder_alive w1 (?base + i * JANUS_PORT_GAP)" by simp
      ultimately show ?thesis by (simp add: holder_alive_cong[OF fr])
    next
      case (Some q)
      with Inr r res have "q = p" by (simp add: calculate_unfold[OF off])
      with probe_Some_not_alive[of ?base "[0, 1, 2, 3, 4]" w1 p w2] Inr r Some
      have "\<not> holder_alive w1 p" by simp
      with alive show ?thesis by (simp add: holder_alive_cong[OF fr])
    qed
  qed
qed

section \<open>Facts about the examples and the methods\<close>

lemma pid_file_path_eq [simp]: "pid_file_path p = pid_file_path q \<longleftrightarrow> p = q"
  using pid_file_path_inj by blast

lemma janus_pid_file_path_17730 [simp]: "janus_pid_file_path globals_17730 = pid_file_path 17730"
  by (simp add: janus_pid_file_path_def globals_17730_def)

lemma basedir_env_home: "get_octoprint_basedir env_home = ''/home/user/.octoprint''"
  by (simp add: get_octoprint_basedir_def env_home_def env_plain_def startswith_def)

lemma basedir_env_plain: "get_octoprint_basedir env_plain = []"
  by (simp add: get_octoprint_basedir_def env_plain_def startswith_def)

lemma load_module_admin:
  "load_module etc env w = Inr (g, w') \<Longrightarrow> JANUS_ADMIN_WS_PORT g = JANUS_WS_PORT g + 1"
  by (auto simp: load_module_def split: sum.splits prod.splits)

lemma mod10_set: "h mod 10 \<in> {0, 1, 2, 3, 4, 5, 6, 7, 8, 9}" for h :: int
proof -
  have "0 \<le> h mod 10" "h mod 10 < 10" by simp_all
  then show ?thesis by (simp, arith)
qed

lemma remove_quietly_frame: "remove_quietly w f = w\<lparr>files := files (remove_quietly w f)\<rparr>"
  by (simp add: remove_quietly_def os_remove_def split: option.splits)

lemma unreadable_is_corrupt:
  "files w (pid_file_path p) = Some f \<Longrightarrow> read_error f = Some e \<Longrightarrow>
   caught_by [ValueError, FileNotFoundError, PermissionError] e \<Longrightarrow> lock_corrupt w p"
  by (simp add: lock_corrupt_def lock_pid_def open_read_def)

lemma not_integer_is_corrupt:
  "files w (pid_file_path p) = Some f \<Longrightarrow> read_error f = None \<Longrightarrow>
   py_int (py_strip (content f)) = Inl e \<Longrightarrow> lock_corrupt w p"
  by (simp add: lock_corrupt_def lock_pid_def open_read_def py_int_error_caught)

lemma lock_stale_exists: "lock_stale w p \<Longrightarrow> \<not> lock_free w p"
  by (auto simp: lock_stale_def holder_dead_def lock_corrupt_def lock_free_def lock_pid_def
      open_read_def split: sum.splits option.splits)

lemma lock_stale_local:
  assumes "files w1 (pid_file_path p) = files w (pid_file_path p)" "pid_exists w1 = pid_exists w"
  shows "lock_stale w1 p = lock_stale w p"
proof -
  have lp: "lock_pid w1 p = lock_pid w p"
    using assms(1) by (simp add: lock_pid_def open_read_def)
  have rc: "removal_caught w1 (pid_file_path p) = removal_caught w (pid_file_path p)"
    using assms(1) by (simp add: removal_caught_def os_remove_def split: option.splits)
  show ?thesis
    using assms lp rc
    by (cases "lock_pid w p") (simp_all add: lock_stale_def holder_dead_def lock_corrupt_def)
qed

lemma offset_env_plain: "get_instance_port_offset env_plain w = Inr (0, w)"
  by (simp add: get_instance_port_offset_def basedir_env_plain)

lemmas py_int_eval = py_int_def py_strip_def py_isspace_def digit_val_def Let_def

lemmas lock_eval = holder_alive_def holder_dead_def lock_corrupt_def lock_free_def lock_pid_def
  open_read_def removal_caught_def os_remove_def removable_def plain_file_def

lemma str_int_17730: "str_int 17730 = ''17730''"
  by (simp add: str_int_def str_nat.simps digit_char_def)

lemma base_0: "JANUS_BASE_PORT + 0 + 0 * JANUS_PORT_GAP = 17730"
  by (simp add: JANUS_BASE_PORT_def)

lemma calculate_plain_first_stale:
  "lock_stale w 17730 \<Longrightarrow>
   calculate_janus_ports env_plain w = Inr (17730, remove_quietly w (pid_file_path 17730))"
proof -
  assume st: "lock_stale w 17730"
  then have nf: "\<not> lock_free w 17730" by (rule lock_stale_exists)
  have k: "(0::int) \<in> {0, 1, 2, 3, 4}" by simp
  from calculate_first_not_alive[OF offset_env_plain k, of w] st nf
  show ?thesis by (simp add: JANUS_BASE_PORT_def)
qed

lemma two_stale_facts:
  "lock_stale world_two_stale 17730" "lock_stale world_two_stale 17750"
  "removable world_two_stale (pid_file_path 17730)"
  by (simp_all add: lock_stale_def world_two_stale_def lock_eval py_int_eval quiet_world_def)

lemma kill_recorded_pid_cases:
  "kill_recorded_pid g c w =
     (case open_read w (janus_pid_file_path g) of
        Inl e \<Rightarrow> (Some e, w)
      | Inr body \<Rightarrow>
          (case kill_error w body of
             Some e \<Rightarrow> (Some e, w\<lparr>kill_calls := kill_calls w @ [body]\<rparr>)
           | None \<Rightarrow> (port_close_error w, w\<lparr>kill_calls := kill_calls w @ [body]\<rparr>)))"
  by (simp add: kill_recorded_pid_def run_kill_def wait_for_port_to_close_def
      split: sum.splits option.splits)

lemma kill_recorded_pid_frame:
  "\<exists>K. snd (kill_recorded_pid g c w) = w\<lparr>kill_calls := K\<rparr>"
proof (cases "open_read w (janus_pid_file_path g)")
  case (Inl e)
  then have "snd (kill_recorded_pid g c w) = w\<lparr>kill_calls := kill_calls w\<rparr>"
    by (simp add: kill_recorded_pid_cases)
  then show ?thesis by blast
next
  case (Inr body)
  then have "snd (kill_recorded_pid g c w) = w\<lparr>kill_calls := kill_calls w @ [body]\<rparr>"
    by (simp add: kill_recorded_pid_cases split: option.splits)
  then show ?thesis by blast
qed

lemma remove_pid_file_eq:
  "remove_pid_file g w = (None, remove_quietly w (janus_pid_file_path g))"
  by (simp add: remove_pid_file_def remove_quietly_def split: sum.splits)

lemma kill_janus_if_running_eq:
  "kill_janus_if_running g c w =
     (None,
      remove_quietly
        (case fst (kill_recorded_pid g c w) of
           None \<Rightarrow> snd (kill_recorded_pid g c w)
         | Some e \<Rightarrow>
             log_msg WARNING (''Failed to shutdown Janus - '' @ str_error e)
               (snd (kill_recorded_pid g c w)))
        (janus_pid_file_path g))"
  by (cases "kill_recorded_pid g c w"; rename_tac r w1; case_tac r)
     (simp_all add: kill_janus_if_running_def remove_pid_file_eq caught_by_Exception)

lemma remove_quietly_log: "log (remove_quietly w f) = log w"
  by (simp add: remove_quietly_def os_remove_def split: option.splits)

lemma remove_quietly_kill_calls: "kill_calls (remove_quietly w f) = kill_calls w"
  by (simp add: remove_quietly_def os_remove_def split: option.splits)

lemma kill_janus_if_running_frame:
  "\<exists>F L K. snd (kill_janus_if_running g c w) = w\<lparr>files := F, log := L, kill_calls := K\<rparr>"
proof -
  obtain K where K: "snd (kill_recorded_pid g c w) = w\<lparr>kill_calls := K\<rparr>"
    using kill_recorded_pid_frame by blast
  let ?w1 = "case fst (kill_recorded_pid g c w) of
               None \<Rightarrow> snd (kill_recorded_pid g c w)
             | Some e \<Rightarrow> log_msg WARNING (''Failed to shutdown Janus - '' @ str_error e)
                 (snd (kill_recorded_pid g c w))"
  have "\<exists>L. ?w1 = w\<lparr>log := L, kill_calls := K\<rparr>"
  proof (cases "fst (kill_recorded_pid g c w)")
    case None
    then have "?w1 = w\<lparr>log := log w, kill_calls := K\<rparr>" by (simp add: K)
    then show ?thesis by blast
  next
    case (Some e)
    then have "?w1 = w\<lparr>log := log w @ [(WARNING, ''Failed to shutdown Janus - '' @ str_error e)],
                         kill_calls := K\<rparr>"
      by (simp add: K log_msg_def)
    then show ?thesis by blast
  qed
  then obtain L where L: "?w1 = w\<lparr>log := L, kill_calls := K\<rparr>" by blast
  have "snd (kill_janus_if_running g c w) = remove_quietly ?w1 (janus_pid_file_path g)"
    by (simp add: kill_janus_if_running_eq)
  also have "\<dots> = ?w1\<lparr>files := files (remove_quietly ?w1 (janus_pid_file_path g))\<rparr>"
    by (rule remove_quietly_frame)
  also have "\<dots> = w\<lparr>files := files (remove_quietly ?w1 (janus_pid_file_path g)), log := L, kill_calls := K\<rparr>"
    by (simp add: L)
  finally show ?thesis by blast
qed

lemma janus_env_cong:
  "environ_ld_library_path w1 = environ_ld_library_path w \<Longrightarrow> janus_env ld w1 = janus_env ld w"
  by (simp add: janus_env_def)

lemma run_janus_forever_spawn_failure:
  assumes "popen w (py_split (janus_cmd g bin)) (janus_env ld w) = Inl e"
  shows "run_janus_forever g c bin ld lines w =
         (None, Done (w\<lparr>log := log w @ [(DEBUG, ''Popen: '' @ repr_env (janus_env ld w) @ '' '' @ janus_cmd g bin)],
                        sentry := sentry w @ [e]\<rparr>))"
proof -
  let ?w1 = "log_msg DEBUG (''Popen: '' @ repr_env (janus_env ld w) @ '' '' @ janus_cmd g bin) w"
  have "janus_env ld ?w1 = janus_env ld w" by (rule janus_env_cong) (simp add: log_msg_def)
  with assms have "popen ?w1 (py_split (janus_cmd g bin)) (janus_env ld w) = Inl e"
    by (simp add: log_msg_def)
  then show ?thesis
    by (simp add: run_janus_forever_def run_janus_body_def Let_def caught_by_Exception
        captureException_def) (simp add: log_msg_def)
qed

lemma start_spawn_failure:
  assumes sp: "popen w (py_split (janus_cmd g bin)) (janus_env ld w) = Inl e"
  shows "fst (start g c bin ld w) =
           (case port_open_error w of
              Some e' \<Rightarrow> Some e'
            | None \<Rightarrow> (case ws_connect w of Inl e' \<Rightarrow> Some e' | Inr ws \<Rightarrow> None)) \<and>
         sentry (snd (snd (start g c bin ld w))) = sentry w @ [e] \<and>
         files (snd (snd (start g c bin ld w))) = files (snd (kill_janus_if_running g c w))"
proof -
  obtain F L K where fr: "snd (kill_janus_if_running g c w) = w\<lparr>files := F, log := L, kill_calls := K\<rparr>"
    using kill_janus_if_running_frame by blast
  let ?w1 = "w\<lparr>files := F, log := L, kill_calls := K\<rparr>"
  have k: "kill_janus_if_running g c w = (None, ?w1)"
    using fr by (simp add: kill_janus_if_running_eq)
  have "janus_env ld ?w1 = janus_env ld w" by (rule janus_env_cong) simp
  with sp have sp1: "popen ?w1 (py_split (janus_cmd g bin)) (janus_env ld ?w1) = Inl e"
    by simp
  note r = run_janus_forever_spawn_failure[OF sp1, of c "[]"]
  show ?thesis
    by (cases "port_open_error w"; cases "ws_connect w")
       (simp_all add: start_def k r Let_def wait_for_janus_def wait_for_port_def start_janus_ws_def)
qed

lemma popen_no_binary:
  "popen world_no_binary cmd env =
     Inl (Exc FileNotFoundError ''[Errno 2] No such file or directory: /opt/janus/bin/janus'')"
  by (simp add: world_no_binary_def)

lemma popen_no_binary_timeout:
  "popen world_no_binary_timeout cmd env =
     Inl (Exc FileNotFoundError ''[Errno 2] No such file or directory: /opt/janus/bin/janus'')"
  by (simp add: world_no_binary_timeout_def world_no_binary_def)

lemma kill_janus_if_running_files:
  "files (snd (kill_janus_if_running g c w)) = files (remove_quietly w (janus_pid_file_path g))"
proof -
  obtain K where K: "snd (kill_recorded_pid g c w) = w\<lparr>kill_calls := K\<rparr>"
    using kill_recorded_pid_frame by blast
  show ?thesis
    by (cases "fst (kill_recorded_pid g c w)")
       (simp_all add: kill_janus_if_running_eq remove_quietly_files removable_def K log_msg_def)
qed

lemma kill_janus_if_running_no_lock:
  assumes "files w (janus_pid_file_path g) = None"
  shows "kill_janus_if_running g c w =
         (None, log_msg WARNING (''Failed to shutdown Janus - '' @
            ''[Errno 2] No such file or directory: '' @ janus_pid_file_path g) w)"
proof -
  have "open_read w (janus_pid_file_path g) =
      Inl (Exc FileNotFoundError (''[Errno 2] No such file or directory: '' @ janus_pid_file_path g))"
    using assms by (simp add: open_read_def)
  then have k: "kill_recorded_pid g c w =
      (Some (Exc FileNotFoundError (''[Errno 2] No such file or directory: '' @ janus_pid_file_path g)), w)"
    by (simp add: kill_recorded_pid_cases)
  have "remove_quietly w' (janus_pid_file_path g) = w'" if "files w' = files w" for w'
    using that assms by (simp add: remove_quietly_unremovable removable_def)
  then show ?thesis by (simp add: kill_janus_if_running_eq k log_msg_def)
qed

lemma kill_janus_if_running_kill_calls:
  "kill_calls (snd (kill_janus_if_running g c w)) =
     (case open_read w (janus_pid_file_path g) of
        Inl e \<Rightarrow> kill_calls w
      | Inr body \<Rightarrow> kill_calls w @ [body])"
  by (cases "open_read w (janus_pid_file_path g)")
     (simp_all add: kill_janus_if_running_eq kill_recorded_pid_cases remove_quietly_kill_calls
        log_msg_def split: option.splits)

lemma kill_recorded_pid_conn: "kill_recorded_pid g c w = kill_recorded_pid g c' w"
  by (simp only: kill_recorded_pid_cases)

lemma kill_janus_if_running_conn:
  "kill_janus_if_running g c w = kill_janus_if_running g c' w"
  by (simp only: kill_janus_if_running_def kill_recorded_pid_conn[of g c w c'])

lemma shutdown_no_ws:
  "janus_ws c = None \<Longrightarrow>
   shutdown g c w =
     (None, c\<lparr>shutting_down := True, janus_ws := None\<rparr>, snd (kill_janus_if_running g c w))"
  using kill_janus_if_running_conn[of g "c\<lparr>shutting_down := True, janus_ws := None\<rparr>" w c]
  by (simp add: shutdown_def Let_def kill_janus_if_running_eq)

lemma shutdown_returned:
  "shutdown g c w = (None, c1, w1) \<Longrightarrow> janus_ws c1 = None \<and> shutting_down c1"
  by (auto simp: shutdown_def Let_def ws_close_def kill_janus_if_running_eq
      split: option.splits prod.splits)

lemma shutdown_files:
  "shutdown g c w = (None, c1, w1) \<Longrightarrow> files w1 = files (remove_quietly w (janus_pid_file_path g))"
proof -
  assume a: "shutdown g c w = (None, c1, w1)"
  then have "\<exists>c'. kill_janus_if_running g c' w = (None, w1)"
    by (auto simp: shutdown_def Let_def ws_close_def split: option.splits prod.splits)
  then obtain c' where "kill_janus_if_running g c' w = (None, w1)" by blast
  then have "w1 = snd (kill_janus_if_running g c' w)" by simp
  then show ?thesis by (simp add: kill_janus_if_running_files)
qed

lemma shutdown_conn0_quiet:
  "shutdown globals_17730 conn0 quiet_world =
     (None, conn0\<lparr>shutting_down := True, janus_ws := None\<rparr>,
      quiet_world\<lparr>log := [(WARNING, ''Failed to shutdown Janus - '' @
            ''[Errno 2] No such file or directory: '' @ pid_file_path 17730)]\<rparr>)"
proof -
  have "files quiet_world (janus_pid_file_path globals_17730) = None"
    by (simp add: quiet_world_def)
  from kill_janus_if_running_no_lock[OF this]
  show ?thesis
    by (simp add: shutdown_no_ws conn0_def init_conn_def log_msg_def) (simp add: quiet_world_def)
qed

lemma str_int_17731: "str_int 17731 = ''17731''"
  by (simp add: str_int_def str_nat.simps digit_char_def)

lemma calculate_exhausted:
  "calculate_janus_ports env_plain world_exhausted =
     Inr (17730, log_msg WARNING ''Could not find available Janus port, using 17730'' world_exhausted)"
proof -
  have "\<forall>i\<in>{0, 1, 2, 3, 4}. holder_alive world_exhausted (JANUS_BASE_PORT + 0 + i * JANUS_PORT_GAP)"
    by (simp add: world_exhausted_def lock_eval py_int_eval JANUS_BASE_PORT_def JANUS_PORT_GAP_def)
  from calculate_all_alive[OF offset_env_plain this]
  show ?thesis by (simp add: JANUS_BASE_PORT_def str_int_17730)
qed

lemma load_module_exhausted:
  "load_module ''/tmp/janus/etc'' env_plain world_exhausted = Inr (globals_17730, world_exhausted_loaded)"
  by (simp add: load_module_def calculate_exhausted globals_17730_def world_exhausted_loaded_def
      str_int_17730 str_int_17731 basedir_env_plain)

lemma shutdown_exhausted_loaded:
  "shutdown globals_17730 conn0 world_exhausted_loaded =
     (None, conn0\<lparr>shutting_down := True, janus_ws := None\<rparr>,
      world_exhausted_loaded\<lparr>files := (files world_exhausted_loaded)(pid_file_path 17730 := None),
                             kill_calls := [''100'']\<rparr>)"
  by (simp add: shutdown_no_ws conn0_def init_conn_def kill_janus_if_running_eq
        kill_recorded_pid_cases open_read_def world_exhausted_loaded_def world_exhausted_def
        plain_file_def remove_quietly_def os_remove_def quiet_world_def log_msg_def)

lemma monitor_loop_eof:
  "\<forall>l\<in>set lines. l \<noteq> [] \<Longrightarrow>
   monitor_loop proc (lines @ [] # rest) w =
     Done (w\<lparr>log := log w @ map (\<lambda>l. (DEBUG, ''JANUS: '' @ py_rstrip l)) lines
                  @ [(WARNING, ''Janus quit with exit code '' @ str_int (exit_code proc))]\<rparr>)"
  by (induction lines arbitrary: w) (simp_all add: log_msg_def)

lemma json_loads_not_json: "json_loads ''not json'' = Inl (Exc JSONDecodeError ''Expecting value'')"
  by code_simp

lemma json_loads_ack: "json_loads ''{ \"janus\" : \"ack\" }'' = Inr (JObj [(''janus'', JStr ''ack'')])"
  by code_simp

lemma process_janus_msg_decoded:
  "json_loads raw_msg = Inr v \<Longrightarrow>
   process_janus_msg c raw_msg w =
     (case upstream_error w of
        None \<Rightarrow> (None, w\<lparr>log := log w @ [(DEBUG, ''Relaying Janus msg''), (DEBUG, raw_msg)],
                          upstream := upstream w @ [[(''janus'', raw_msg)]]\<rparr>)
      | Some e \<Rightarrow> (None, w\<lparr>log := log w @ [(DEBUG, ''Relaying Janus msg''), (DEBUG, raw_msg)],
                           sentry := sentry w @ [e]\<rparr>))"
  by (simp add: process_janus_msg_def process_janus_body_def send_ws_msg_to_server_def
      log_msg_def captureException_def split: option.splits)

lemma process_janus_msg_undecoded:
  "json_loads raw_msg = Inl e \<Longrightarrow>
   process_janus_msg c raw_msg w = (None, w\<lparr>sentry := sentry w @ [e]\<rparr>)"
  by (simp add: process_janus_msg_def process_janus_body_def captureException_def)

lemma run_janus_forever_flag:
  "run_janus_forever g (c\<lparr>shutting_down := b\<rparr>) bin ld lines w = run_janus_forever g c bin ld lines w"
  by (simp add: run_janus_forever_def)

lemma run_janus_forever_eof:
  assumes sp: "popen w (py_split (janus_cmd g bin)) (janus_env ld w) = Inr proc"
    and wr: "pid_write_error w = None"
    and ls: "\<forall>l\<in>set lines. l \<noteq> []"
  shows "\<exists>w'. run_janus_forever g c bin ld (lines @ [] # rest) w = (None, Done w') \<and>
           sentry w' = sentry w \<and>
           log w' = log w @ [(DEBUG, ''Popen: '' @ repr_env (janus_env ld w) @ '' '' @ janus_cmd g bin)]
              @ map (\<lambda>l. (DEBUG, ''JANUS: '' @ py_rstrip l)) lines
              @ [(WARNING, ''Janus quit with exit code '' @ str_int (exit_code proc))]"
  using sp wr
  by (simp add: run_janus_forever_def run_janus_body_def Let_def log_msg_def open_write_def
      janus_env_def monitor_loop_eof[OF ls])

lemma popen_quiet:
  "popen quiet_world cmd env = Inr \<lparr>child_pid = 4242, exit_code = 1\<rparr>"
  by (simp add: quiet_world_def)

lemma str_int_1: "str_int 1 = ''1''"
  by (simp add: str_int_def str_nat.simps digit_char_def)

section \<open>The claims\<close>

subsection \<open>The monitoring task\<close>

text \<open>
  Claim C1, as the code has it. When the gateway was spawned and its pid file written, the
  end of its output makes \<^verbatim>\<open>run_janus_forever\<close> log the exit code as a warning and
  return. It does so whether \<^verbatim>\<open>shutting_down\<close> is set or not, with the same resulting
  world, and it gives nothing to \<^verbatim>\<open>sentry\<close>: the object has no state that could become
  stopped or crashed, and the flag is never read.
\<close>

theorem C1_end_of_stream:
  assumes "popen w (py_split (janus_cmd g bin)) (janus_env ld w) = Inr proc"
    and "pid_write_error w = None"
    and "\<forall>l\<in>set lines. l \<noteq> []"
  shows "\<exists>w'. run_janus_forever g (c\<lparr>shutting_down := False\<rparr>) bin ld (lines @ [] # rest) w
                 = (None, Done w') \<and>
              run_janus_forever g (c\<lparr>shutting_down := True\<rparr>) bin ld (lines @ [] # rest) w
                 = (None, Done w') \<and>
              sentry w' = sentry w \<and>
              last (log w') = (WARNING, ''Janus quit with exit code '' @ str_int (exit_code proc))"
proof -
  from run_janus_forever_eof[OF assms, of c rest] obtain w' where
    w': "run_janus_forever g c bin ld (lines @ [] # rest) w = (None, Done w')"
    "sentry w' = sentry w"
    "log w' = log w @ [(DEBUG, ''Popen: '' @ repr_env (janus_env ld w) @ '' '' @ janus_cmd g bin)]
       @ map (\<lambda>l. (DEBUG, ''JANUS: '' @ py_rstrip l)) lines
       @ [(WARNING, ''Janus quit with exit code '' @ str_int (exit_code proc))]"
    by blast
  from w'(3) have "last (log w') = (WARNING, ''Janus quit with exit code '' @ str_int (exit_code proc))"
    by simp
  with w'(1,2) show ?thesis by (simp add: run_janus_forever_flag)
qed

theorem C1_end_of_stream_witness:
  "popen quiet_world (py_split (janus_cmd globals_17730 ''/usr/bin/janus'')) (janus_env [] quiet_world)
     = Inr \<lparr>child_pid = 4242, exit_code = 1\<rparr> \<and>
   pid_write_error quiet_world = None \<and>
   ''Janus started'' \<noteq> [] \<and>
   (\<exists>w'. run_janus_forever globals_17730 (conn0\<lparr>shutting_down := False\<rparr>) ''/usr/bin/janus'' []
             ([''Janus started''] @ [] # []) quiet_world = (None, Done w') \<and>
          run_janus_forever globals_17730 (conn0\<lparr>shutting_down := True\<rparr>) ''/usr/bin/janus'' []
             ([''Janus started''] @ [] # []) quiet_world = (None, Done w') \<and>
          sentry w' = [] \<and>
          last (log w') = (WARNING, ''Janus quit with exit code 1''))"
proof -
  have w: "pid_write_error quiet_world = None" "sentry quiet_world = []"
    by (simp_all add: quiet_world_def)
  have l: "\<forall>l\<in>set [''Janus started'']. l \<noteq> []" by simp
  from C1_end_of_stream[OF popen_quiet w(1) l,
      where g = globals_17730 and bin = "''/usr/bin/janus''" and ld = "[]" and c = conn0
        and rest = "[]"]
  show ?thesis using popen_quiet w l by (simp add: str_int_1)
qed

text \<open>
  The claim C1 as stated fails: the flag is not set, the gateway's output ends at once,
  and nothing is reported to \<^verbatim>\<open>sentry\<close>.
\<close>

theorem C1_unflagged_exit_counterexample:
  "shutting_down conn0 = False \<and>
   fst (run_janus_forever globals_17730 conn0 ''/usr/bin/janus'' [] [[]] quiet_world) = None \<and>
   sentry (task_state (snd (run_janus_forever globals_17730 conn0 ''/usr/bin/janus'' [] [[]] quiet_world))) = []"
proof -
  have w: "pid_write_error quiet_world = None" "sentry quiet_world = []"
    by (simp_all add: quiet_world_def)
  have l: "\<forall>l\<in>set ([] :: string list). l \<noteq> []" by simp
  from run_janus_forever_eof[OF popen_quiet w(1) l,
      where g = globals_17730 and bin = "''/usr/bin/janus''" and ld = "[]" and c = conn0
        and rest = "[]"]
  show ?thesis using w by (auto simp: conn0_def init_conn_def)
qed

subsection \<open>Probing the candidate ports\<close>



subsection \<open>Ports of an instance\<close>



subsection \<open>Stale and corrupt locks\<close>







subsection \<open>Starting the gateway\<close>

text \<open>
  Claim C6, as the code has it. When \<^verbatim>\<open>Popen\<close> raises, the thread catches the error,
  gives it to \<^verbatim>\<open>sentry\<close> and ends; no pid file is written. \<^verbatim>\<open>start\<close> does not
  raise that error: what it raises, if anything, is what the wait for the port or the
  construction of the socket raises.
\<close>

theorem C6_spawn_failure:
  assumes "popen w (py_split (janus_cmd g bin)) (janus_env ld w) = Inl e"
  shows "(\<exists>w'. run_janus_forever g c bin ld lines w = (None, Done w') \<and>
               sentry w' = sentry w @ [e] \<and> files w' = files w) \<and>
         fst (start g c bin ld w) =
           (case port_open_error w of
              Some e' \<Rightarrow> Some e'
            | None \<Rightarrow> (case ws_connect w of Inl e' \<Rightarrow> Some e' | Inr ws \<Rightarrow> None)) \<and>
         sentry (snd (snd (start g c bin ld w))) = sentry w @ [e] \<and>
         files (snd (snd (start g c bin ld w))) = files (snd (kill_janus_if_running g c w))"
  using start_spawn_failure[OF assms, of c] run_janus_forever_spawn_failure[OF assms, of c lines]
  by simp

theorem C6_spawn_failure_witness:
  "popen world_no_binary_timeout (py_split (janus_cmd globals_17730 ''/opt/janus/bin/janus''))
     (janus_env [] world_no_binary_timeout)
     = Inl (Exc FileNotFoundError ''[Errno 2] No such file or directory: /opt/janus/bin/janus'') \<and>
   fst (start globals_17730 conn0 ''/opt/janus/bin/janus'' [] world_no_binary_timeout)
     = Some (Exc TimeoutError ''port did not open'') \<and>
   sentry (snd (snd (start globals_17730 conn0 ''/opt/janus/bin/janus'' [] world_no_binary_timeout)))
     = [Exc FileNotFoundError ''[Errno 2] No such file or directory: /opt/janus/bin/janus''] \<and>
   files (snd (snd (start globals_17730 conn0 ''/opt/janus/bin/janus'' [] world_no_binary_timeout)))
     = files (snd (kill_janus_if_running globals_17730 conn0 world_no_binary_timeout))"
proof -
  have w: "port_open_error world_no_binary_timeout = Some (Exc TimeoutError ''port did not open'')"
    "sentry world_no_binary_timeout = []"
    by (simp_all add: world_no_binary_timeout_def world_no_binary_def quiet_world_def)
  from C6_spawn_failure[OF popen_no_binary_timeout,
      where g = globals_17730 and bin = "''/opt/janus/bin/janus''" and ld = "[]" and c = conn0]
  show ?thesis using w popen_no_binary_timeout by simp
qed

text \<open>
  The claim C6 as stated fails: with the binary missing, \<^verbatim>\<open>start\<close> returns without
  an error when the wait for the port returns, and raises the wait's \<^verbatim>\<open>TimeoutError\<close>
  when it does not; the spawn error itself goes to \<^verbatim>\<open>sentry\<close>.
\<close>

theorem C6_spawn_error_counterexample:
  "fst (start globals_17730 conn0 ''/opt/janus/bin/janus'' [] world_no_binary) = None \<and>
   fst (start globals_17730 conn0 ''/opt/janus/bin/janus'' [] world_no_binary_timeout)
     = Some (Exc TimeoutError ''port did not open'') \<and>
   sentry (snd (snd (start globals_17730 conn0 ''/opt/janus/bin/janus'' [] world_no_binary)))
     = [Exc FileNotFoundError ''[Errno 2] No such file or directory: /opt/janus/bin/janus'']"
proof -
  have w: "port_open_error world_no_binary_timeout = Some (Exc TimeoutError ''port did not open'')"
    "port_open_error world_no_binary = None"
    "ws_connect world_no_binary = Inr \<lparr>ws_connected = True, ws_sent = [], ws_closed = False,
                         ws_send_error = None, ws_close_error = None\<rparr>"
    "sentry world_no_binary = []"
    by (simp_all add: world_no_binary_timeout_def world_no_binary_def quiet_world_def)
  from start_spawn_failure[OF popen_no_binary,
      where g = globals_17730 and bin = "''/opt/janus/bin/janus''" and ld = "[]" and c = conn0]
    start_spawn_failure[OF popen_no_binary_timeout,
      where g = globals_17730 and bin = "''/opt/janus/bin/janus''" and ld = "[]" and c = conn0]
  show ?thesis using w by simp
qed

subsection \<open>Messages from the gateway\<close>

text \<open>
  Claim C7, as the code has it. \<^verbatim>\<open>process_janus_msg\<close> never raises. It decodes the
  message as JSON first. A message that decodes is passed on as it came, wrapped as
  \<^verbatim>\<open>dict(janus=raw_msg)\<close>; one that does not decode is not passed on, and the error is
  given to \<^verbatim>\<open>sentry\<close>, as is an error that the upstream sink raises.
\<close>

theorem C7_inbound_message:
  "fst (process_janus_msg c raw_msg w) = None \<and>
   (\<forall>v. json_loads raw_msg = Inr v \<and> upstream_error w = None \<longrightarrow>
      upstream (snd (process_janus_msg c raw_msg w)) = upstream w @ [[(''janus'', raw_msg)]] \<and>
      sentry (snd (process_janus_msg c raw_msg w)) = sentry w) \<and>
   (\<forall>v e. json_loads raw_msg = Inr v \<and> upstream_error w = Some e \<longrightarrow>
      upstream (snd (process_janus_msg c raw_msg w)) = upstream w \<and>
      sentry (snd (process_janus_msg c raw_msg w)) = sentry w @ [e]) \<and>
   (\<forall>e. json_loads raw_msg = Inl e \<longrightarrow>
      upstream (snd (process_janus_msg c raw_msg w)) = upstream w \<and>
      sentry (snd (process_janus_msg c raw_msg w)) = sentry w @ [e])"
proof (cases "json_loads raw_msg")
  case (Inl e)
  then show ?thesis by (simp add: process_janus_msg_undecoded)
next
  case (Inr v)
  then show ?thesis by (cases "upstream_error w") (simp_all add: process_janus_msg_decoded)
qed

theorem C7_inbound_message_witness:
  "json_loads ''{ \"janus\" : \"ack\" }'' = Inr (JObj [(''janus'', JStr ''ack'')]) \<and>
   upstream_error quiet_world = None \<and>
   fst (process_janus_msg conn0 ''{ \"janus\" : \"ack\" }'' quiet_world) = None \<and>
   upstream (snd (process_janus_msg conn0 ''{ \"janus\" : \"ack\" }'' quiet_world)) =
     [[(''janus'', ''{ \"janus\" : \"ack\" }'')]] \<and>
   sentry (snd (process_janus_msg conn0 ''{ \"janus\" : \"ack\" }'' quiet_world)) = []"
proof -
  have u: "upstream_error quiet_world = None" "upstream quiet_world = []" "sentry quiet_world = []"
    by (simp_all add: quiet_world_def)
  note T = C7_inbound_message[of conn0 "''{ \"janus\" : \"ack\" }''" quiet_world]
  from T json_loads_ack u(1)
  have "upstream (snd (process_janus_msg conn0 ''{ \"janus\" : \"ack\" }'' quiet_world)) =
          upstream quiet_world @ [[(''janus'', ''{ \"janus\" : \"ack\" }'')]] \<and>
        sentry (snd (process_janus_msg conn0 ''{ \"janus\" : \"ack\" }'' quiet_world)) =
          sentry quiet_world"
    by blast
  moreover from T have "fst (process_janus_msg conn0 ''{ \"janus\" : \"ack\" }'' quiet_world) = None"
    by blast
  ultimately show ?thesis using json_loads_ack u by simp
qed

text \<open>
  The claim C7 as stated fails: a message that is not JSON is not forwarded.
\<close>

theorem C7_not_json_counterexample:
  "fst (process_janus_msg conn0 ''not json'' quiet_world) = None \<and>
   upstream (snd (process_janus_msg conn0 ''not json'' quiet_world)) = [] \<and>
   sentry (snd (process_janus_msg conn0 ''not json'' quiet_world)) =
     [Exc JSONDecodeError ''Expecting value'']"
  by (simp add: process_janus_msg_undecoded[OF json_loads_not_json] quiet_world_def)

subsection \<open>Shutting down\<close>




subsection \<open>Sending to the gateway\<close>

text \<open>
  Claim C9. \<^verbatim>\<open>pass_to_janus\<close> on an object that is not connected returns without an
  error and leaves the object, with what its socket has sent, as it was: the message is
  dropped.
\<close>

theorem C9_send_when_disconnected:
  "\<not> connected c \<Longrightarrow> pass_to_janus c msg = (None, c)"
  by (simp add: pass_to_janus_def)

theorem C9_send_when_disconnected_witness:
  "\<not> connected (init_conn ''127.0.0.1'') \<and>
   pass_to_janus (init_conn ''127.0.0.1'') ''keepalive'' = (None, init_conn ''127.0.0.1'')"
proof -
  have h: "\<not> connected (init_conn ''127.0.0.1'')" by (simp add: connected_def init_conn_def)
  from C9_send_when_disconnected[OF h] h show ?thesis by simp
qed

subsection \<open>Reclaiming the lock\<close>

text \<open>
  Claim C10. \<^verbatim>\<open>kill_janus_if_running\<close> never raises. A failure to read the pid file,
  of the \<^verbatim>\<open>kill\<close> command or of the wait for the port to close is what its first
  \<^verbatim>\<open>try\<close> raises, and is then logged as a warning; without a failure nothing is
  logged. The removal of the pid file is attempted in either case: a file that can be
  removed is gone afterwards, and when the removal fails the files are as before.
\<close>

theorem C10_reclaim_never_raises:
  "fst (kill_janus_if_running g c w) = None \<and>
   (\<forall>e. open_read w (janus_pid_file_path g) = Inl e \<longrightarrow>
        fst (kill_recorded_pid g c w) = Some e) \<and>
   (\<forall>body e. open_read w (janus_pid_file_path g) = Inr body \<and> kill_error w body = Some e \<longrightarrow>
        fst (kill_recorded_pid g c w) = Some e) \<and>
   (\<forall>body e. open_read w (janus_pid_file_path g) = Inr body \<and> kill_error w body = None \<and>
        port_close_error w = Some e \<longrightarrow>
        fst (kill_recorded_pid g c w) = Some e) \<and>
   (\<forall>e. fst (kill_recorded_pid g c w) = Some e \<longrightarrow>
        log (snd (kill_janus_if_running g c w)) =
          log w @ [(WARNING, ''Failed to shutdown Janus - '' @ str_error e)]) \<and>
   (fst (kill_recorded_pid g c w) = None \<longrightarrow>
        log (snd (kill_janus_if_running g c w)) = log w) \<and>
   files (snd (kill_janus_if_running g c w)) = files (remove_quietly w (janus_pid_file_path g)) \<and>
   (removable w (janus_pid_file_path g) \<longrightarrow>
        files (snd (kill_janus_if_running g c w)) (janus_pid_file_path g) = None) \<and>
   (\<not> removable w (janus_pid_file_path g) \<longrightarrow>
        files (snd (kill_janus_if_running g c w)) = files w)"
proof -
  let ?f = "janus_pid_file_path g"
  obtain K where K: "snd (kill_recorded_pid g c w) = w\<lparr>kill_calls := K\<rparr>"
    using kill_recorded_pid_frame by blast
  have never: "fst (kill_janus_if_running g c w) = None"
    by (simp add: kill_janus_if_running_eq)
  have src1: "\<forall>e. open_read w ?f = Inl e \<longrightarrow> fst (kill_recorded_pid g c w) = Some e"
    by (simp add: kill_recorded_pid_cases)
  have src2: "\<forall>body e. open_read w ?f = Inr body \<and> kill_error w body = Some e \<longrightarrow>
      fst (kill_recorded_pid g c w) = Some e"
    by (simp add: kill_recorded_pid_cases)
  have src3: "\<forall>body e. open_read w ?f = Inr body \<and> kill_error w body = None \<and>
      port_close_error w = Some e \<longrightarrow> fst (kill_recorded_pid g c w) = Some e"
    by (simp add: kill_recorded_pid_cases)
  have logged: "\<forall>e. fst (kill_recorded_pid g c w) = Some e \<longrightarrow>
      log (snd (kill_janus_if_running g c w)) =
        log w @ [(WARNING, ''Failed to shutdown Janus - '' @ str_error e)]"
    by (simp add: kill_janus_if_running_eq remove_quietly_log K log_msg_def)
  have quiet: "fst (kill_recorded_pid g c w) = None \<longrightarrow>
      log (snd (kill_janus_if_running g c w)) = log w"
    by (simp add: kill_janus_if_running_eq remove_quietly_log K)
  have fs: "files (snd (kill_janus_if_running g c w)) = files (remove_quietly w ?f)"
    by (cases "fst (kill_recorded_pid g c w)")
       (simp_all add: kill_janus_if_running_eq remove_quietly_files removable_def K log_msg_def)
  have gone: "removable w ?f \<longrightarrow> files (snd (kill_janus_if_running g c w)) ?f = None"
    by (simp add: fs remove_quietly_files)
  have kept: "\<not> removable w ?f \<longrightarrow> files (snd (kill_janus_if_running g c w)) = files w"
    by (simp add: fs remove_quietly_files)
  from never src1 src2 src3 logged quiet fs gone kept show ?thesis by blast
qed

theorem C10_reclaim_never_raises_witness:
  "fst (kill_recorded_pid globals_17730 conn0 world_orphan) =
     Some (Exc CalledProcessError ''kill returned non-zero exit status 1'') \<and>
   fst (kill_janus_if_running globals_17730 conn0 world_orphan) = None \<and>
   log (snd (kill_janus_if_running globals_17730 conn0 world_orphan)) =
     [(WARNING, ''Failed to shutdown Janus - kill returned non-zero exit status 1'')] \<and>
   removable world_orphan (janus_pid_file_path globals_17730) \<and>
   files (snd (kill_janus_if_running globals_17730 conn0 world_orphan))
     (janus_pid_file_path globals_17730) = None"
proof -
  let ?f = "janus_pid_file_path globals_17730"
  have rd: "open_read world_orphan ?f = Inr ''4242''"
    by (simp add: open_read_def world_orphan_def plain_file_def)
  have ke: "kill_error world_orphan ''4242'' =
      Some (Exc CalledProcessError ''kill returned non-zero exit status 1'')"
    by (simp add: world_orphan_def)
  have rm: "removable world_orphan ?f"
    by (simp add: removable_def world_orphan_def plain_file_def)
  have lg: "log world_orphan = []" by (simp add: world_orphan_def quiet_world_def)
  note T = C10_reclaim_never_raises[of globals_17730 conn0 world_orphan]
  from T rd ke have f1: "fst (kill_recorded_pid globals_17730 conn0 world_orphan) =
      Some (Exc CalledProcessError ''kill returned non-zero exit status 1'')"
    by blast
  from T have f2: "fst (kill_janus_if_running globals_17730 conn0 world_orphan) = None"
    by blast
  from T f1 have "log (snd (kill_janus_if_running globals_17730 conn0 world_orphan)) =
      log world_orphan @ [(WARNING, ''Failed to shutdown Janus - '' @
        str_error (Exc CalledProcessError ''kill returned non-zero exit status 1''))]"
    by blast
  with lg have f3: "log (snd (kill_janus_if_running globals_17730 conn0 world_orphan)) =
      [(WARNING, ''Failed to shutdown Janus - kill returned non-zero exit status 1'')]"
    by simp
  from T rm have f4:
    "files (snd (kill_janus_if_running globals_17730 conn0 world_orphan)) ?f = None"
    by blast
  from f1 f2 f3 rm f4 show ?thesis by blast
qed

end
